theory Spec2Isabelle
  imports Main
begin

section \<open>The game-view component\<close>

text \<open>
  The custom element \<open>GameView\<close> forwards DOM input events to global bridge functions
  supplied by the host (\<open>setKeyState\<close>, \<open>setMouseButtonState\<close>, \<open>setInputChar\<close>, ...).
  The bridge functions and the calls on \<open>document\<close> are effects: the model records them,
  in order, in a trace kept in the component's state.
\<close>

subsection \<open>Button and key mapping\<close>

text \<open>
  \<open>mapMouseButton(button)\<close>: \<open>if (button === 2) return 1; if (button == 1) return 2;
  return button\<close>. Button codes are integers.
\<close>

definition mapMouseButton :: "int \<Rightarrow> int" where
  "mapMouseButton button =
     (if button = 2 then 1
      else if button = 1 then 2
      else button)"

text \<open>
  \<open>mapKey(which, location)\<close> tells the left and right Alt (18), Ctrl (17) and Shift (16)
  keys apart by the event's location; every other code is passed on.
\<close>

definition mapKey :: "nat \<Rightarrow> nat \<Rightarrow> nat" where
  "mapKey which location =
     (if which = 18 then (if location = 1 then 0xA4 else 0xA5)
      else if which = 17 then (if location = 1 then 0xA2 else 0xA3)
      else if which = 16 then (if location = 1 then 0xA0 else 0xA1)
      else which)"

subsection \<open>Sparse arrays\<close>

text \<open>
  \<open>_keysState\<close> and \<open>_buttonsState\<close> are JavaScript arrays of booleans that start empty
  and are written at arbitrary indices, so they have holes. An array is a list of
  optional entries, \<open>None\<close> being a hole. Reading a hole or past the end gives
  \<open>undefined\<close> (here \<open>None\<close>); writing past the end extends the array with holes.
\<close>

type_synonym 'a js_array = "'a option list"

definition js_get :: "'a js_array \<Rightarrow> nat \<Rightarrow> 'a option" where
  "js_get arr i = (if i < length arr then arr ! i else None)"

definition js_set :: "'a js_array \<Rightarrow> nat \<Rightarrow> 'a \<Rightarrow> 'a js_array" where
  "js_set arr i v =
     (if i < length arr then arr[i := Some v]
      else arr @ replicate (i - length arr) None @ [Some v])"

subsection \<open>State, events and effects\<close>

text \<open>The argument of \<open>setInputChar\<close>: a string (\<open>e.key\<close>, \<open>'\0'\<close>) or a number (\<open>e.which\<close>).\<close>

datatype input_char = CharStr string | CharCode nat

datatype call =
    SetInputChar input_char
  | SetKeyState nat bool
  | SetMouseButtonState int bool
  | SetRawMouseCapture bool
  | DispatchPointerLockChange bool
  | ExitFullscreen
  | ExitPointerLock

record game_view =
  keysState :: "bool js_array"
  buttonsState :: "bool js_array"
  acceptInput :: bool
  pointerLocked :: bool
  fullscreenActive :: bool
  hintActive :: bool
  calls :: "call list"

record keyboard_event =
  key :: string
  shiftKey :: bool
  which :: nat
  location :: nat
  defaultPrevented :: bool
  propagationStopped :: bool

definition emit :: "call \<Rightarrow> game_view \<Rightarrow> game_view" where
  "emit c gv = gv\<lparr>calls := calls gv @ [c]\<rparr>"

definition NUL :: string where
  "NUL = [CHR 0x00]"

subsection \<open>Resetting the key and button states\<close>

text \<open>
  \<open>_resetStates\<close> calls \<open>setInputChar('\0')\<close>, then walks both arrays with
  \<open>Array.prototype.map\<close>. \<open>map\<close> visits the indices below the length the array had when
  the walk started, in ascending order, skips holes, and hands the callback the entry as
  it is at the time of the visit. The callbacks write the array they walk, so the walk
  threads the component's state.
\<close>

definition keys_callback :: "bool \<Rightarrow> nat \<Rightarrow> game_view \<Rightarrow> game_view" where
  "keys_callback active k gv =
     (if active
      then emit (SetKeyState k False) (gv\<lparr>keysState := js_set (keysState gv) k False\<rparr>)
      else gv)"

definition buttons_callback :: "bool \<Rightarrow> nat \<Rightarrow> game_view \<Rightarrow> game_view" where
  "buttons_callback active button gv =
     (if active
      then emit (SetMouseButtonState (int button) False)
             (gv\<lparr>buttonsState := js_set (buttonsState gv) button False\<rparr>)
      else gv)"

definition visit_key :: "nat \<Rightarrow> game_view \<Rightarrow> game_view" where
  "visit_key k gv =
     (case js_get (keysState gv) k of
        None \<Rightarrow> gv
      | Some active \<Rightarrow> keys_callback active k gv)"

definition visit_button :: "nat \<Rightarrow> game_view \<Rightarrow> game_view" where
  "visit_button b gv =
     (case js_get (buttonsState gv) b of
        None \<Rightarrow> gv
      | Some active \<Rightarrow> buttons_callback active b gv)"

definition resetStates :: "game_view \<Rightarrow> game_view" where
  "resetStates gv =
     (let gv1 = emit (SetInputChar (CharStr NUL)) gv;
          gv2 = fold visit_key [0..<length (keysState gv1)] gv1
      in fold visit_button [0..<length (buttonsState gv2)] gv2)"

subsection \<open>Handlers\<close>

text \<open>\<open>_handleWindowBlur\<close>: the window lost the focus.\<close>

definition handleWindowBlur :: "game_view \<Rightarrow> game_view" where
  "handleWindowBlur gv = resetStates gv"

text \<open>
  \<open>_handlePointerLockChange\<close>; the argument tells whether
  \<open>document.pointerLockElement === this\<close>.
\<close>

definition handlePointerLockChange :: "bool \<Rightarrow> game_view \<Rightarrow> game_view" where
  "handlePointerLockChange locked gv =
     (let wasPointerLocked = pointerLocked gv;
          gv1 = gv\<lparr>pointerLocked := locked, acceptInput := locked\<rparr>;
          gv2 = (if locked \<noteq> wasPointerLocked
                 then (emit (DispatchPointerLockChange locked)
                         (emit (SetRawMouseCapture locked) gv1))\<lparr>hintActive := locked\<rparr>
                 else gv1)
      in if \<not> locked \<and> wasPointerLocked then resetStates gv2 else gv2)"

text \<open>
  Strings are lists of bytes, a character outside ASCII standing as its UTF-8 encoding,
  while \<open>e.key.length\<close> counts UTF-16 code units. \<open>js_length\<close> is that count: a byte
  below \<open>0x80\<close> and the first byte of a sequence of two or three bytes stand for one
  unit, the first byte of a sequence of four bytes for two (a surrogate pair), and the
  bytes that continue a sequence for none.
\<close>

definition utf16_units :: "char \<Rightarrow> nat" where
  "utf16_units c =
     (let b = (of_char c :: nat)
      in if b < 0x80 then 1 else if b < 0xC0 then 0 else if b < 0xF0 then 1 else 2)"

definition js_length :: "string \<Rightarrow> nat" where
  "js_length s = sum_list (map utf16_units s)"

text \<open>
  \<open>_handleKeydown\<close>. The handler returns the component's state and the event, whose
  flags record \<open>preventDefault()\<close> and \<open>stopPropagation()\<close>.
\<close>

definition handleKeydown :: "game_view \<Rightarrow> keyboard_event \<Rightarrow> game_view \<times> keyboard_event" where
  "handleKeydown gv e =
     (if \<not> acceptInput gv then (gv, e)
      else
        let e1 = e\<lparr>defaultPrevented := True, propagationStopped := True\<rparr> in
        if key e = ''Escape'' \<and> shiftKey e then
          let gv1 = (if fullscreenActive gv then emit ExitFullscreen gv else gv);
              gv2 = (if pointerLocked gv1 then emit ExitPointerLock gv1 else gv1)
          in (gv2, e1)
        else
          let vk = mapKey (which e) (location e) in
          if js_get (keysState gv) vk = Some True then (gv, e1)
          else
            let gv1 = emit (SetKeyState vk True) (gv\<lparr>keysState := js_set (keysState gv) vk True\<rparr>)
            in if js_length (key e) = 1 then (emit (SetInputChar (CharStr (key e))) gv1, e1)
               else if js_length (key e) > 2 then (emit (SetInputChar (CharCode (which e))) gv1, e1)
               else (gv1, e1))"

subsection \<open>Vocabulary for the properties of \<open>_resetStates\<close>\<close>

text \<open>
  These three definitions are not code of the component: they name what the properties
  below say about it. \<open>cleared arr\<close> is \<open>arr\<close> with every entry set to \<open>false\<close>
  (holes stay holes); \<open>active_indices arr\<close> lists, in ascending order, the indices whose
  entry is \<open>true\<close>; \<open>releasing_calls gv\<close> is the sequence of bridge calls that releases
  what is active in \<open>gv\<close>.
\<close>

definition cleared :: "bool js_array \<Rightarrow> bool js_array" where
  "cleared arr = map (map_option (\<lambda>_. False)) arr"

definition active_indices :: "bool js_array \<Rightarrow> nat list" where
  "active_indices arr = filter (\<lambda>i. js_get arr i = Some True) [0..<length arr]"

definition releasing_calls :: "game_view \<Rightarrow> call list" where
  "releasing_calls gv =
     SetInputChar (CharStr NUL)
       # map (\<lambda>k. SetKeyState k False) (active_indices (keysState gv))
       @ map (\<lambda>b. SetMouseButtonState (int b) False) (active_indices (buttonsState gv))"

text \<open>
  A component in controlling mode with the pointer locked: keys 1 and 4 are down, key 2
  was released, button 2 is down, button 0 was released.
\<close>

definition example_view :: game_view where
  "example_view =
     \<lparr>keysState = [None, Some True, Some False, None, Some True],
      buttonsState = [Some False, None, Some True],
      acceptInput = True, pointerLocked = True, fullscreenActive = False,
      hintActive = False, calls = [SetKeyState 1 True]\<rparr>"

text \<open>The same component while it does not capture input, and a key press.\<close>

definition idle_view :: game_view where
  "idle_view = example_view\<lparr>acceptInput := False, pointerLocked := False\<rparr>"

definition example_keydown :: keyboard_event where
  "example_keydown =
     \<lparr>key = ''a'', shiftKey = False, which = 65, location = 0,
      defaultPrevented = False, propagationStopped = False\<rparr>"

section \<open>The credentials provider of the workbench\<close>

text \<open>
  \<open>LocalStorageCredentialsProvider\<close> keeps an array of credentials in the private field
  \<open>_credentials\<close> and persists it, serialized, under one key of \<open>window.localStorage\<close>.
  The state of the model is the field (\<open>None\<close> while it is \<open>undefined\<close>) and the item
  stored under that key (\<open>None\<close> while there is none).

  \<open>JSON.parse\<close> and \<open>JSON.stringify\<close> are the platform's; every operation takes them as
  the parameters \<open>parse\<close> and \<open>stringify\<close>. \<open>parse s\<close> is \<open>Some cs\<close> when
  \<open>JSON.parse(s)\<close> returns an array (of credentials, as the field's type declares), and
  \<open>None\<close> when it throws or returns anything else. \<open>localStorage.setItem\<close> is taken to
  succeed.
\<close>

record credential =
  service :: string
  account :: string
  password :: string

record provider =
  priv_credentials :: "credential list option"
  localStorage_item :: "string option"

text \<open>
  The getter \<open>credentials\<close>: on first use it loads the array from the storage (a missing
  or empty item, a parse error and a value that is not an array all give the empty
  array) and keeps it in the field. It returns the array and the provider.
\<close>

definition credentials ::
  "(string \<Rightarrow> credential list option) \<Rightarrow> provider \<Rightarrow> credential list \<times> provider" where
  "credentials parse p =
     (case priv_credentials p of
        Some cs \<Rightarrow> (cs, p)
      | None \<Rightarrow>
          let loaded =
                (case localStorage_item p of
                   None \<Rightarrow> None
                 | Some serializedCredentials \<Rightarrow>
                     if serializedCredentials = [] then None else parse serializedCredentials);
              cs = (case loaded of None \<Rightarrow> [] | Some cs \<Rightarrow> cs)
          in (cs, p\<lparr>priv_credentials := Some cs\<rparr>))"

definition save ::
  "(string \<Rightarrow> credential list option) \<Rightarrow> (credential list \<Rightarrow> string) \<Rightarrow> provider \<Rightarrow> provider" where
  "save parse stringify p =
     (let (cs, p1) = credentials parse p
      in p1\<lparr>localStorage_item := Some (stringify cs)\<rparr>)"

text \<open>
  \<open>getPassword\<close> returns the password of the first credential of the service and
  account (\<open>account\<close> is a string, as its type declares).
\<close>

definition getPassword ::
  "(string \<Rightarrow> credential list option) \<Rightarrow> string \<Rightarrow> string \<Rightarrow> provider
   \<Rightarrow> string option \<times> provider" where
  "getPassword parse s a p =
     (let (cs, p1) = credentials parse p
      in (map_option password (find (\<lambda>c. service c = s \<and> account c = a) cs), p1))"

text \<open>
  The callback that \<open>deletePassword\<close> hands to \<open>Array.prototype.filter\<close> drops the
  credentials of the service and account and sets the flag \<open>found\<close> when it drops one.
  \<open>filter_found\<close> is that walk: it returns the flag and the credentials kept.
\<close>

fun filter_found :: "string \<Rightarrow> string \<Rightarrow> credential list \<Rightarrow> bool \<Rightarrow> bool \<times> credential list" where
  "filter_found s a [] found = (found, [])"
| "filter_found s a (c # cs) found =
     (if service c = s \<and> account c = a
      then filter_found s a cs True
      else (let (found', kept) = filter_found s a cs found in (found', c # kept)))"

definition deletePassword ::
  "(string \<Rightarrow> credential list option) \<Rightarrow> (credential list \<Rightarrow> string) \<Rightarrow>
   string \<Rightarrow> string \<Rightarrow> provider \<Rightarrow> bool \<times> provider" where
  "deletePassword parse stringify s a p =
     (let (cs, p1) = credentials parse p;
          (found, kept) = filter_found s a cs False;
          p2 = p1\<lparr>priv_credentials := Some kept\<rparr>
      in (found, if found then save parse stringify p2 else p2))"

text \<open>
  \<open>setPassword\<close> calls \<open>deletePassword\<close> without awaiting it; the body of
  \<open>deletePassword\<close> has no \<open>await\<close>, so it has run to its end when the call returns.
\<close>

definition setPassword ::
  "(string \<Rightarrow> credential list option) \<Rightarrow> (credential list \<Rightarrow> string) \<Rightarrow>
   string \<Rightarrow> string \<Rightarrow> string \<Rightarrow> provider \<Rightarrow> provider" where
  "setPassword parse stringify s a pw p =
     (let (found, p1) = deletePassword parse stringify s a p;
          (cs, p2) = credentials parse p1;
          p3 = p2\<lparr>priv_credentials :=
                   Some (cs @ [\<lparr>service = s, account = a, password = pw\<rparr>])\<rparr>
      in save parse stringify p3)"

subsection \<open>Vocabulary for the properties of the provider\<close>

text \<open>
  Not code of the provider: \<open>stored parse p\<close> is the array of credentials the provider
  holds (what the getter returns), \<open>matches s a c\<close> says that \<open>c\<close> is a credential of
  service \<open>s\<close> and account \<open>a\<close>, and \<open>at_most_one_per_pair\<close> is the invariant.
\<close>

definition stored :: "(string \<Rightarrow> credential list option) \<Rightarrow> provider \<Rightarrow> credential list" where
  "stored parse p = fst (credentials parse p)"

definition matches :: "string \<Rightarrow> string \<Rightarrow> credential \<Rightarrow> bool" where
  "matches s a c \<longleftrightarrow> service c = s \<and> account c = a"

definition at_most_one_per_pair :: "credential list \<Rightarrow> bool" where
  "at_most_one_per_pair cs \<longleftrightarrow> distinct (map (\<lambda>c. (service c, account c)) cs)"

text \<open>A provider that has not been used yet, over a storage that holds two credentials.\<close>

definition example_credentials :: "credential list" where
  "example_credentials =
     [\<lparr>service = ''github'', account = ''alice'', password = ''pw1''\<rparr>,
      \<lparr>service = ''github'', account = ''bob'', password = ''pw2''\<rparr>]"

definition example_parse :: "string \<Rightarrow> credential list option" where
  "example_parse s = (if s = ''two'' then Some example_credentials else None)"

definition example_stringify :: "credential list \<Rightarrow> string" where
  "example_stringify cs = concat (map (\<lambda>c. service c @ ''/'' @ account c @ ''='' @ password c @ '';'') cs)"

definition example_provider :: provider where
  "example_provider = \<lparr>priv_credentials = None, localStorage_item = Some ''two''\<rparr>"

section \<open>The static and remote-resource server\<close>

text \<open>
  \<open>startServer\<close> answers HTTP requests from the file system and upgrades connections to
  WebSockets. The model is a function from the request to the response; what the handler
  asks of the platform is a parameter of the model (the record \<open>env\<close> below), except for
  the string functions of Node.js and ECMAScript that the handler's results depend on,
  which are written out in this section. Log entries are left out.

  Strings are lists of bytes: a character outside ASCII stands as its UTF-8 encoding.
\<close>

subsection \<open>Strings\<close>

text \<open>
  \<open>Array.prototype.join\<close>, \<open>String.prototype.split\<close> at one character, the test of a
  leading substring (the regular expression \<open>/^\/static\//\<close>), \<open>indexOf(p) !== -1\<close>,
  \<open>toLowerCase\<close> (on ASCII letters) and the decimal form of a number (of integers below
  \<open>10^21\<close>, which JavaScript writes without an exponent).
\<close>

fun join_with :: "string \<Rightarrow> string list \<Rightarrow> string" where
  "join_with sep [] = []"
| "join_with sep [x] = x"
| "join_with sep (x # y # ys) = x @ sep @ join_with sep (y # ys)"

fun split_on :: "char \<Rightarrow> string \<Rightarrow> string list" where
  "split_on d [] = [[]]"
| "split_on d (c # cs) =
     (if c = d then [] # split_on d cs
      else (case split_on d cs of
              [] \<Rightarrow> [[c]]
            | s # ss \<Rightarrow> (c # s) # ss))"

definition startsWith :: "string \<Rightarrow> string \<Rightarrow> bool" where
  "startsWith s p \<longleftrightarrow> take (length p) s = p"

fun includes_str :: "string \<Rightarrow> string \<Rightarrow> bool" where
  "includes_str [] p = (p = [])"
| "includes_str (c # cs) p = (startsWith (c # cs) p \<or> includes_str cs p)"

definition toLowerCase :: "string \<Rightarrow> string" where
  "toLowerCase s =
     map (\<lambda>c. let n = (of_char c :: nat) in if 65 \<le> n \<and> n \<le> 90 then char_of (n + 32) else c) s"

definition digit_char :: "nat \<Rightarrow> char" where
  "digit_char d = char_of (48 + d)"

function show_nat :: "nat \<Rightarrow> string" where
  "show_nat n = (if n < 10 then [digit_char n] else show_nat (n div 10) @ [digit_char (n mod 10)])"
  by pat_completeness auto
termination
  by (relation "measure id") auto

declare show_nat.simps [simp del]

definition show_int :: "int \<Rightarrow> string" where
  "show_int i = (if i < 0 then CHR ''-'' # show_nat (nat (- i)) else show_nat (nat i))"

subsection \<open>The \<open>path\<close> module\<close>

text \<open>
  \<open>path.normalize\<close>, \<open>path.join\<close> and \<open>path.extname\<close> of Node.js, in their POSIX
  form. \<open>normalizeString\<close> resolves the segments of a path from left to right: an empty
  segment and \<open>.\<close> are dropped, \<open>..\<close> removes the segment before it unless there is
  none or it is \<open>..\<close> itself, in which case \<open>..\<close> is kept when the path is relative
  (\<open>allowAboveRoot\<close>) and dropped when it is absolute. \<open>normalize_segments\<close> is that
  walk, \<open>res\<close> being the segments resolved so far.
\<close>

fun normalize_segments :: "bool \<Rightarrow> string list \<Rightarrow> string list \<Rightarrow> string list" where
  "normalize_segments allowAboveRoot res [] = res"
| "normalize_segments allowAboveRoot res (seg # segs) =
     (if seg = [] \<or> seg = ''.'' then normalize_segments allowAboveRoot res segs
      else if seg = ''..'' then
        (if res \<noteq> [] \<and> last res \<noteq> ''..''
         then normalize_segments allowAboveRoot (butlast res) segs
         else if allowAboveRoot
         then normalize_segments allowAboveRoot (res @ [''..'']) segs
         else normalize_segments allowAboveRoot res segs)
      else normalize_segments allowAboveRoot (res @ [seg]) segs)"

definition normalizeString :: "string \<Rightarrow> bool \<Rightarrow> string" where
  "normalizeString path allowAboveRoot =
     join_with ''/'' (normalize_segments allowAboveRoot [] (split_on CHR ''/'' path))"

definition path_normalize :: "string \<Rightarrow> string" where
  "path_normalize path =
     (if path = [] then ''.''
      else
        let isAbsolute = (hd path = CHR ''/'');
            trailingSeparator = (last path = CHR ''/'');
            p = normalizeString path (\<not> isAbsolute)
        in if p = [] then (if isAbsolute then ''/'' else if trailingSeparator then ''./'' else ''.'')
           else (if isAbsolute then ''/'' else []) @ p @ (if trailingSeparator then ''/'' else []))"

definition path_join :: "string list \<Rightarrow> string" where
  "path_join args =
     (let parts = filter (\<lambda>arg. arg \<noteq> []) args
      in if parts = [] then ''.'' else path_normalize (join_with ''/'' parts))"

text \<open>
  \<open>path.extname\<close>: the extension of the last non-empty segment, from its last dot on;
  empty when there is no dot, when the only dot is the segment's first character, and for
  the segment \<open>..\<close>.
\<close>

definition last_index_of :: "char \<Rightarrow> string \<Rightarrow> nat option" where
  "last_index_of c s =
     (case filter (\<lambda>i. s ! i = c) (rev [0..<length s]) of [] \<Rightarrow> None | i # _ \<Rightarrow> Some i)"

definition path_extname :: "string \<Rightarrow> string" where
  "path_extname path =
     (case filter (\<lambda>seg. seg \<noteq> []) (split_on CHR ''/'' path) of
        [] \<Rightarrow> []
      | seg # segs \<Rightarrow>
          let base = last (seg # segs) in
          (case last_index_of CHR ''.'' base of
             None \<Rightarrow> []
           | Some startDot \<Rightarrow>
               if startDot = 0 \<or> base = ''..'' then [] else drop startDot base))"

subsection \<open>\<open>decodeURIComponent\<close>\<close>

text \<open>
  \<open>decodeURIComponent\<close> replaces each escape \<open>%XX\<close> by the byte it denotes; the
  escaped bytes at and above \<open>0x80\<close> must form well-formed UTF-8 sequences. It throws
  \<open>URIError\<close> (here \<open>None\<close>) on a \<open>%\<close> that is not followed by two hexadecimal digits
  and on an ill-formed sequence.
\<close>

definition hex_digit :: "char \<Rightarrow> nat option" where
  "hex_digit c =
     (let n = (of_char c :: nat)
      in if 48 \<le> n \<and> n \<le> 57 then Some (n - 48)
         else if 65 \<le> n \<and> n \<le> 70 then Some (n - 55)
         else if 97 \<le> n \<and> n \<le> 102 then Some (n - 87)
         else None)"

datatype uri_token = Lit char | Octet nat

fun uri_tokens :: "string \<Rightarrow> uri_token list option" where
  "uri_tokens (c # h # l # rest) =
     (if c = CHR ''%'' then
        (case (hex_digit h, hex_digit l) of
           (Some a, Some b) \<Rightarrow> map_option ((#) (Octet (16 * a + b))) (uri_tokens rest)
         | _ \<Rightarrow> None)
      else map_option ((#) (Lit c)) (uri_tokens (h # l # rest)))"
| "uri_tokens (c # cs) =
     (if c = CHR ''%'' then None else map_option ((#) (Lit c)) (uri_tokens cs))"
| "uri_tokens [] = Some []"

definition utf8_length :: "nat \<Rightarrow> nat" where
  "utf8_length b =
     (if b < 0x80 then 1 else if b < 0xC0 then 0 else if b < 0xE0 then 2
      else if b < 0xF0 then 3 else if b < 0xF8 then 4 else 0)"

fun continuation_octets :: "uri_token list \<Rightarrow> nat list option" where
  "continuation_octets [] = Some []"
| "continuation_octets (Lit c # ts) = None"
| "continuation_octets (Octet b # ts) =
     (if 0x80 \<le> b \<and> b < 0xC0 then map_option ((#) b) (continuation_octets ts) else None)"

definition utf8_code_point :: "nat \<Rightarrow> nat list \<Rightarrow> nat" where
  "utf8_code_point b conts =
     fold (\<lambda>c v. v * 64 + c mod 64) conts (b mod 2 ^ (6 - length conts))"

definition utf8_valid :: "nat \<Rightarrow> nat list \<Rightarrow> bool" where
  "utf8_valid b conts =
     (let v = utf8_code_point b conts
      in if length conts = 1 then 0x80 \<le> v
         else if length conts = 2 then 0x800 \<le> v \<and> \<not> (0xD800 \<le> v \<and> v \<le> 0xDFFF)
         else 0x10000 \<le> v \<and> v \<le> 0x10FFFF)"

function decode_tokens :: "uri_token list \<Rightarrow> string option" where
  "decode_tokens [] = Some []"
| "decode_tokens (Lit c # ts) = map_option ((#) c) (decode_tokens ts)"
| "decode_tokens (Octet b # ts) =
     (let n = utf8_length b
      in if n = 0 then None
         else if n = 1 then map_option ((#) (char_of b)) (decode_tokens ts)
         else
           (case continuation_octets (take (n - 1) ts) of
              None \<Rightarrow> None
            | Some conts \<Rightarrow>
                if length conts = n - 1 \<and> utf8_valid b conts
                then map_option ((@) (map char_of (b # conts))) (decode_tokens (drop (n - 1) ts))
                else None))"
  by pat_completeness auto
termination
  by (relation "measure length") auto

definition decodeURIComponent :: "string \<Rightarrow> string option" where
  "decodeURIComponent s = (case uri_tokens s of None \<Rightarrow> None | Some ts \<Rightarrow> decode_tokens ts)"

subsection \<open>Requests, responses and the platform\<close>

text \<open>
  A value of a parsed query string is one string, or an array of strings when the key
  occurs more than once. \<open>stats\<close> holds what \<open>serveFile\<close> reads of the result of
  \<open>fs.promises.stat\<close>: \<open>stat.ino\<close>, \<open>stat.size\<close> and \<open>stat.mtime.getTime()\<close>.

  The platform, \<open>env\<close>:
  \<^item> \<open>APP_ROOT\<close>, the application root (\<open>path.join(__dirname, '../../../..')\<close>);
  \<^item> \<open>url_parse u\<close>, the result of \<open>url.parse(u, true)\<close>, \<open>None\<close> when it throws;
  \<^item> \<open>uri_file_fsPath p\<close>, the result of \<open>URI.from({ scheme: 'file', path: p }).fsPath\<close>,
    \<open>None\<close> when \<open>URI.from\<close> throws;
  \<^item> \<open>fs_stat p\<close>, the result of \<open>fs.promises.stat(p)\<close>, \<open>None\<close> when it rejects;
  \<^item> \<open>fs_read p\<close>, what \<open>fs.createReadStream(p)\<close> delivers, \<open>None\<close> when the stream
    fails (a directory, for one);
  \<^item> \<open>sha1_base64 s\<close>, the result of
    \<open>crypto.createHash('sha1').update(s).digest('base64')\<close>.

  A request is its \<open>url\<close> (\<open>None\<close> when \<open>req.url\<close> is undefined), its headers, by
  their names in lower case, and the flag \<open>req.upgrade\<close>, which the HTTP parser of
  Node.js sets when the request asks for a change of protocol: it carries an \<open>Upgrade\<close>
  header and \<open>Connection: Upgrade\<close>. A response is the status and the headers given to
  \<open>writeHead\<close> and the body: ended with a string (the empty string for \<open>res.end()\<close>), or
  the stream of a file piped into it.
\<close>

datatype query_value = QString string | QArray "string list"

record parsed_url =
  pathname :: "string option"
  query :: "string \<Rightarrow> query_value option"

record stats =
  stat_ino :: nat
  stat_size :: nat
  stat_mtime :: int

record env =
  APP_ROOT :: string
  url_parse :: "string \<Rightarrow> parsed_url option"
  uri_file_fsPath :: "string \<Rightarrow> string option"
  fs_stat :: "string \<Rightarrow> stats option"
  fs_read :: "string \<Rightarrow> string option"
  sha1_base64 :: "string \<Rightarrow> string"

record request =
  url :: "string option"
  headers :: "string \<Rightarrow> string option"
  upgrade :: bool

datatype body = Ended string | Piped "string option"

record response =
  status :: nat
  out_headers :: "(string \<times> string) list"
  body :: body

definition devMode :: bool where
  "devMode = True"

definition WEB_MAIN :: "env \<Rightarrow> string" where
  "WEB_MAIN env =
     path_join [APP_ROOT env, ''out'', ''vs'', ''fxdk'', ''browser'', ''workbench'', ''workbench.html'']"

definition WEB_MAIN_DEV :: "env \<Rightarrow> string" where
  "WEB_MAIN_DEV env =
     path_join [APP_ROOT env, ''out'', ''vs'', ''fxdk'', ''browser'', ''workbench'',
                ''workbench-dev.html'']"

subsection \<open>Serving a file\<close>

definition textMimeType :: "string \<Rightarrow> string option" where
  "textMimeType =
     map_of [(''.html'', ''text/html''),
             (''.js'', ''text/javascript''),
             (''.json'', ''application/json''),
             (''.css'', ''text/css''),
             (''.svg'', ''image/svg+xml'')]"

definition mapExtToMediaMimes :: "string \<Rightarrow> string option" where
  "mapExtToMediaMimes =
     map_of [(''.bmp'', ''image/bmp''),
             (''.gif'', ''image/gif''),
             (''.ico'', ''image/x-icon''),
             (''.jpe'', ''image/jpg''),
             (''.jpeg'', ''image/jpg''),
             (''.jpg'', ''image/jpg''),
             (''.png'', ''image/png''),
             (''.tga'', ''image/x-tga''),
             (''.tif'', ''image/tiff''),
             (''.tiff'', ''image/tiff''),
             (''.woff'', ''application/font-woff'')]"

definition getMediaMime :: "string \<Rightarrow> string option" where
  "getMediaMime forPath = (let ext = path_extname forPath in mapExtToMediaMimes (toLowerCase ext))"

text \<open>
  The \<open>Content-Type\<close> of a file:
  \<open>textMimeType.get(path.extname(filePath)) || getMediaMime(filePath) || 'text/plain'\<close>.
\<close>

definition contentType :: "string \<Rightarrow> string" where
  "contentType filePath =
     (case textMimeType (path_extname filePath) of
        Some t \<Rightarrow> t
      | None \<Rightarrow> (case getMediaMime filePath of Some t \<Rightarrow> t | None \<Rightarrow> ''text/plain''))"

text \<open>The weak validator of a file, \<open>W/"ino-size-mtime"\<close>.\<close>

definition weak_etag :: "stats \<Rightarrow> string" where
  \<open>weak_etag stat =
     ''W/"'' @ join_with ''-'' [show_nat (stat_ino stat), show_nat (stat_size stat),
                                show_int (stat_mtime stat)] @ ''"''\<close>

text \<open>
  \<open>serveFile\<close>: whatever is thrown between the \<open>try\<close> and the \<open>catch\<close> (here: by
  \<open>stat\<close>) is answered with 404.
\<close>

definition serveFile :: "env \<Rightarrow> request \<Rightarrow> string \<Rightarrow> response" where
  "serveFile env req filePath0 =
     (let filePath = path_normalize filePath0
      in case fs_stat env filePath of
           None \<Rightarrow>
             \<lparr>status = 404, out_headers = [(''Content-Type'', ''text/plain'')],
              body = Ended ''Not found''\<rparr>
         | Some stat \<Rightarrow>
             let etag = weak_etag stat
             in if headers req ''if-none-match'' = Some etag
                then \<lparr>status = 304, out_headers = [], body = Ended []\<rparr>
                else \<lparr>status = 200,
                      out_headers = [(''Content-Type'', contentType filePath), (''Etag'', etag)],
                      body = Piped (fs_read env filePath)\<rparr>)"

definition serveError :: "nat \<Rightarrow> string \<Rightarrow> response" where
  "serveError errorCode errorMessage =
     \<lparr>status = errorCode, out_headers = [(''Content-Type'', ''text/plain'')],
      body = Ended errorMessage\<rparr>"

subsection \<open>The manifest\<close>

text \<open>
  \<open>JSON.stringify\<close> of an object whose values are strings: the properties in their
  order, keys and values quoted, with the quotation mark, the backslash and the control
  characters escaped.
\<close>

definition hex_char :: "nat \<Rightarrow> char" where
  "hex_char d = ''0123456789abcdef'' ! (d mod 16)"

definition json_escape :: "char \<Rightarrow> string" where
  "json_escape c =
     (let n = (of_char c :: nat)
      in if n = 0x22 then [CHR 0x5C, CHR 0x22]
         else if n = 0x5C then [CHR 0x5C, CHR 0x5C]
         else if n = 0x08 then [CHR 0x5C, CHR ''b'']
         else if n = 0x0C then [CHR 0x5C, CHR ''f'']
         else if n = 0x0A then [CHR 0x5C, CHR ''n'']
         else if n = 0x0D then [CHR 0x5C, CHR ''r'']
         else if n = 0x09 then [CHR 0x5C, CHR ''t'']
         else if n < 0x20 then [CHR 0x5C, CHR ''u'', CHR ''0'', CHR ''0'', hex_char (n div 16), hex_char n]
         else [c])"

definition json_quote :: "string \<Rightarrow> string" where
  "json_quote s = [CHR 0x22] @ concat (map json_escape s) @ [CHR 0x22]"

definition JSON_stringify :: "(string \<times> string) list \<Rightarrow> string" where
  "JSON_stringify obj =
     ''{'' @ join_with '','' (map (\<lambda>(k, v). json_quote k @ '':'' @ json_quote v) obj) @ ''}''"

definition manifest :: string where
  "manifest =
     JSON_stringify [(''name'', ''FxDK long''), (''short_name'', ''FxDK short''),
                     (''start_url'', ''/''), (''lang'', ''en-US''), (''display'', ''standalone'')]"

subsection \<open>The request handler\<close>

text \<open>
  The file that a path other than \<open>/vscode-remote-resource\<close>, \<open>/\<close> and
  \<open>/manifest.json\<close> is served from:
  \<open>path.join(APP_ROOT, path.normalize(decodeURIComponent(pathname)))\<close>, after a leading
  \<open>/static/\<close> has been taken off the path name. \<open>None\<close> when \<open>decodeURIComponent\<close>
  throws.
\<close>

definition static_file_path :: "env \<Rightarrow> string \<Rightarrow> string option" where
  "static_file_path env pname =
     (let encoded = (if startsWith pname ''/static/''
                     then drop (length ''/static/'') pname
                     else pname)
      in case decodeURIComponent encoded of
           None \<Rightarrow> None
         | Some decoded \<Rightarrow>
             let relativeFilePath = path_normalize decoded
             in Some (path_join [APP_ROOT env, relativeFilePath]))"

text \<open>
  The body of the handler's \<open>try\<close> block, \<open>None\<close> when it throws; \<open>handleRequest\<close> is
  the handler, whose \<open>catch\<close> answers with 500.
\<close>

definition handler_body :: "env \<Rightarrow> request \<Rightarrow> string \<Rightarrow> response option" where
  "handler_body env req u =
     (case url_parse env u of
        None \<Rightarrow> None
      | Some parsedUrl \<Rightarrow>
          if pathname parsedUrl = Some ''/vscode-remote-resource'' then
            (case query parsedUrl ''path'' of
               Some (QString filePath) \<Rightarrow>
                 (case uri_file_fsPath env filePath of
                    None \<Rightarrow> None
                  | Some fsPath \<Rightarrow>
                      if fsPath = [] then Some (serveError 400 ''Bad Request.'')
                      else Some (serveFile env req fsPath))
             | _ \<Rightarrow> Some (serveError 400 ''Bad Request.''))
          else if pathname parsedUrl = Some ''/'' then
            Some (serveFile env req (if devMode then WEB_MAIN_DEV env else WEB_MAIN env))
          else if pathname parsedUrl = Some ''/manifest.json'' then
            Some \<lparr>status = 200, out_headers = [(''Content-Type'', ''application/json'')],
                  body = Ended manifest\<rparr>
          else
            (case pathname parsedUrl of
               None \<Rightarrow> Some (serveError 404 ''Not found.'')
             | Some p \<Rightarrow>
                 if p = [] then Some (serveError 404 ''Not found.'')
                 else (case static_file_path env p of
                         None \<Rightarrow> None
                       | Some filePath \<Rightarrow> Some (serveFile env req filePath))))"

definition handleRequest :: "env \<Rightarrow> request \<Rightarrow> response" where
  "handleRequest env req =
     (case url req of
        None \<Rightarrow> serveError 400 ''Bad Request.''
      | Some u \<Rightarrow>
          if u = [] then serveError 400 ''Bad Request.''
          else (case handler_body env req u of
                  None \<Rightarrow> serveError 500 ''Internal Server Error.''
                | Some res \<Rightarrow> res))"

subsection \<open>The WebSocket upgrade\<close>

text \<open>
  The listener of the server's \<open>upgrade\<close> event ends the socket with a status line, or
  writes the handshake and hands the socket to \<open>vscode.handleWebSocket\<close> together with
  the flag \<open>permessageDeflate\<close> (\<open>Upgraded\<close>, with what was written). When \<open>url.parse\<close>
  throws, the listener's promise is rejected and the socket is left as it is. A header
  that is absent reads as \<open>undefined\<close>, which string concatenation and \<open>String(...)\<close>
  turn into the text \<open>undefined\<close>.
\<close>

datatype upgrade_result =
    SocketEnd string
  | Upgraded string bool
  | UpgradeThrows

definition CRLF :: string where
  "CRLF = [CHR 0x0D, CHR 0x0A]"

definition header_or_undefined :: "request \<Rightarrow> string \<Rightarrow> string" where
  "header_or_undefined req name =
     (case headers req name of None \<Rightarrow> ''undefined'' | Some v \<Rightarrow> v)"

definition handleUpgrade :: "env \<Rightarrow> request \<Rightarrow> upgrade_result" where
  "handleUpgrade env req =
     (case url req of
        None \<Rightarrow> SocketEnd ''HTTP/1.1 400 Bad Request''
      | Some u \<Rightarrow>
          if headers req ''upgrade'' \<noteq> Some ''websocket'' \<or> u = []
          then SocketEnd ''HTTP/1.1 400 Bad Request''
          else
            (case url_parse env u of
               None \<Rightarrow> UpgradeThrows
             | Some parsedUrl \<Rightarrow>
                 let token = (case query parsedUrl ''reconnectionToken'' of
                                Some (QString t) \<Rightarrow> Some t
                              | _ \<Rightarrow> None)
                 in if token = None \<or> token = Some [] then SocketEnd ''HTTP/1.1 400 Bad Request''
                    else
                      let acceptKey = header_or_undefined req ''sec-websocket-key'';
                          hash = sha1_base64 env (acceptKey @ ''258EAFA5-E914-47DA-95CA-C5AB0DC85B11'');
                          responseHeaders =
                            [''HTTP/1.1 101 Web Socket Protocol Handshake'', ''Upgrade: WebSocket'',
                             ''Connection: Upgrade'', ''Sec-WebSocket-Accept: '' @ hash];
                          permessageDeflate =
                            includes_str (header_or_undefined req ''sec-websocket-extensions'')
                              ''permessage-deflate'';
                          responseHeaders' =
                            (if permessageDeflate
                             then responseHeaders @
                               [''Sec-WebSocket-Extensions: permessage-deflate; server_max_window_bits=15'']
                             else responseHeaders)
                      in Upgraded (join_with CRLF responseHeaders' @ CRLF @ CRLF) permessageDeflate))"

subsection \<open>The server\<close>

text \<open>
  \<open>startServer\<close> gives the request handler to \<open>http.createServer\<close> and registers the
  listener above for the server's \<open>upgrade\<close> event. The server of Node.js hands a request
  whose \<open>upgrade\<close> flag is set to the listener of the \<open>upgrade\<close> event, with the raw
  socket, and every other request to the request handler. (The flag is also set for the
  method \<open>CONNECT\<close>, which has an event of its own; the model is of the other methods.)
\<close>

datatype server_reply = Response response | Socket upgrade_result


subsection \<open>Vocabulary for the properties of the server\<close>

text \<open>
  Not code of the server. \<open>token_missing\<close> says that the query has no usable
  \<open>reconnectionToken\<close>: the parameter is absent, occurs more than once (an array), or is
  the empty string. \<open>within_root root p\<close> says that the path \<open>p\<close> is the directory \<open>root\<close>
  or lies below it. A \<open>plain_segment\<close> is a segment of a normalized path: a name other
  than \<open>.\<close> and \<open>..\<close>.
\<close>

definition plain_segment :: "string \<Rightarrow> bool" where
  "plain_segment s \<longleftrightarrow> s \<noteq> [] \<and> s \<noteq> ''.'' \<and> s \<noteq> ''..'' \<and> CHR ''/'' \<notin> set s"

definition token_missing :: "parsed_url \<Rightarrow> bool" where
  "token_missing parsedUrl \<longleftrightarrow>
     (case query parsedUrl ''reconnectionToken'' of
        None \<Rightarrow> True
      | Some (QArray vs) \<Rightarrow> True
      | Some (QString t) \<Rightarrow> t = [])"

definition within_root :: "string \<Rightarrow> string \<Rightarrow> bool" where
  "within_root root p \<longleftrightarrow> p = root \<or> startsWith p (root @ ''/'')"

text \<open>
  An example platform, for the evaluations below. Its \<open>url_parse\<close> gives what
  \<open>url.parse\<close> gives on the URLs used there: the query of the URLs listed, and for a URL
  without a query the URL itself as the path name. Its SHA-1 is the handshake example
  of RFC 6455.
\<close>

definition empty_token_url :: parsed_url where
  "empty_token_url = \<lparr>pathname = Some ''/'', query = map_of [(''reconnectionToken'', QString [])]\<rparr>"

definition example_url_parse :: "string \<Rightarrow> parsed_url option" where
  "example_url_parse u =
     (if u = ''/?reconnectionToken=c0e3a8af&reconnection=false''
      then Some \<lparr>pathname = Some ''/'',
                 query = map_of [(''reconnectionToken'', QString ''c0e3a8af''),
                                 (''reconnection'', QString ''false'')]\<rparr>
      else if u = ''/?reconnectionToken=''
      then Some empty_token_url
      else if u = ''/vscode-remote-resource?path=a&path=b''
      then Some \<lparr>pathname = Some ''/vscode-remote-resource'',
                 query = map_of [(''path'', QArray [''a'', ''b''])]\<rparr>
      else Some \<lparr>pathname = Some u, query = Map.empty\<rparr>)"

definition example_stats :: stats where
  "example_stats = \<lparr>stat_ino = 1234, stat_size = 11, stat_mtime = 1600000000000\<rparr>"

definition example_env :: env where
  "example_env =
     \<lparr>APP_ROOT = ''/opt/fxcode'',
      url_parse = example_url_parse,
      uri_file_fsPath = (\<lambda>p. if startsWith p ''//'' then None else Some p),
      fs_stat = map_of [(''/opt/fxcode/out/main.js'', example_stats),
                        (''/etc/passwd'', example_stats)],
      fs_read = map_of [(''/opt/fxcode/out/main.js'', ''let x = 1;''),
                        (''/etc/passwd'', ''root:x:0:0'')],
      sha1_base64 = (\<lambda>s. if s = ''dGhlIHNhbXBsZSBub25jZQ==258EAFA5-E914-47DA-95CA-C5AB0DC85B11''
                          then ''s3pPLMBiTxaQ9kYGzzhZRbK+xOo='' else [])\<rparr>"

text \<open>
  A plain request, and a request for an upgrade to a WebSocket, each with further headers.
\<close>

definition get_request :: "string \<Rightarrow> (string \<times> string) list \<Rightarrow> request" where
  "get_request u hs = \<lparr>url = Some u, headers = map_of hs, upgrade = False\<rparr>"

definition upgrade_request :: "string \<Rightarrow> (string \<times> string) list \<Rightarrow> request" where
  "upgrade_request u hs =
     \<lparr>url = Some u,
      headers = map_of ((''connection'', ''Upgrade'') # (''upgrade'', ''websocket'') # hs),
      upgrade = True\<rparr>"

section \<open>Properties of the game-view component\<close>

text \<open>
  C9: \<open>mapMouseButton\<close> swaps the button codes 1 and 2, returns every other code
  unchanged, and applying it twice gives the code back.
\<close>

theorem mapMouseButton_swap_involution:
  "mapMouseButton 1 = 2 \<and> mapMouseButton 2 = 1
   \<and> (\<forall>b. b \<noteq> 1 \<and> b \<noteq> 2 \<longrightarrow> mapMouseButton b = b)
   \<and> (\<forall>b. mapMouseButton (mapMouseButton b) = b)"
  by (simp add: mapMouseButton_def)

theorem mapMouseButton_swap_involution_witness:
  "(0::int) \<noteq> 1 \<and> (0::int) \<noteq> 2 \<and> mapMouseButton 0 = 0
   \<and> mapMouseButton (mapMouseButton 2) = 2"
  using mapMouseButton_swap_involution by simp

text \<open>
  C6: a keydown event that arrives while the component does not accept input
  (\<open>_acceptInput\<close> is false) leaves everything as it was: the handler returns the state
  and the event unchanged, so no bridge function is called, \<open>_keysState\<close> is the same
  array, and neither \<open>preventDefault\<close> nor \<open>stopPropagation\<close> was called.
\<close>

theorem handleKeydown_inactive_noop:
  "\<not> acceptInput gv \<Longrightarrow>
     handleKeydown gv e = (gv, e)
     \<and> calls (fst (handleKeydown gv e)) = calls gv
     \<and> keysState (fst (handleKeydown gv e)) = keysState gv
     \<and> defaultPrevented (snd (handleKeydown gv e)) = defaultPrevented e
     \<and> propagationStopped (snd (handleKeydown gv e)) = propagationStopped e"
  by (simp add: handleKeydown_def)

theorem handleKeydown_inactive_noop_witness:
  "\<not> acceptInput idle_view
   \<and> handleKeydown idle_view example_keydown = (idle_view, example_keydown)
   \<and> calls (fst (handleKeydown idle_view example_keydown)) = [SetKeyState 1 True]
   \<and> \<not> defaultPrevented (snd (handleKeydown idle_view example_keydown))
   \<and> \<not> propagationStopped (snd (handleKeydown idle_view example_keydown))"
proof -
  have idle: "\<not> acceptInput idle_view"
    by (simp add: idle_view_def)
  show ?thesis
    using idle handleKeydown_inactive_noop [OF idle, of example_keydown]
    by (simp add: idle_view_def example_view_def example_keydown_def)
qed

subsection \<open>The length of a key name\<close>

lemma js_length_ascii: "\<forall>c \<in> set s. (of_char c :: nat) < 0x80 \<Longrightarrow> js_length s = length s"
  by (induction s) (simp_all add: js_length_def utf16_units_def)

lemma js_length_examples:
  "js_length ''a'' = 1 \<and> js_length ''Escape'' = 6
   \<and> js_length [CHR 0xE2, CHR 0x82, CHR 0xAC] = 1
   \<and> js_length [CHR 0xF0, CHR 0x9F, CHR 0x98, CHR 0x80] = 2"
  by (simp add: js_length_def utf16_units_def)

subsection \<open>The walk over the arrays\<close>

lemma fold_visit_key:
  "n \<le> length (keysState gv) \<Longrightarrow>
   fold visit_key [0..<n] gv =
     gv\<lparr>keysState := cleared (take n (keysState gv)) @ drop n (keysState gv),
        calls := calls gv @ map (\<lambda>k. SetKeyState k False)
                   (filter (\<lambda>i. js_get (keysState gv) i = Some True) [0..<n])\<rparr>"
proof (induction n)
  case 0
  then show ?case by (simp add: cleared_def)
next
  case (Suc n)
  then have n: "n < length (keysState gv)" by simp
  have split: "drop n (keysState gv) = keysState gv ! n # drop (Suc n) (keysState gv)"
    using n by (simp add: Cons_nth_drop_Suc)
  show ?case
  proof (cases "keysState gv ! n")
    case None
    with Suc n show ?thesis
      by (simp add: visit_key_def js_get_def cleared_def nth_append take_Suc_conv_app_nth split)
  next
    case (Some a)
    with Suc n show ?thesis
      by (cases a) (simp_all add: visit_key_def keys_callback_def emit_def js_get_def js_set_def
          cleared_def nth_append take_Suc_conv_app_nth split list_update_append)
  qed
qed

lemma fold_visit_button:
  "n \<le> length (buttonsState gv) \<Longrightarrow>
   fold visit_button [0..<n] gv =
     gv\<lparr>buttonsState := cleared (take n (buttonsState gv)) @ drop n (buttonsState gv),
        calls := calls gv @ map (\<lambda>b. SetMouseButtonState (int b) False)
                   (filter (\<lambda>i. js_get (buttonsState gv) i = Some True) [0..<n])\<rparr>"
proof (induction n)
  case 0
  then show ?case by (simp add: cleared_def)
next
  case (Suc n)
  then have n: "n < length (buttonsState gv)" by simp
  have split: "drop n (buttonsState gv) = buttonsState gv ! n # drop (Suc n) (buttonsState gv)"
    using n by (simp add: Cons_nth_drop_Suc)
  show ?case
  proof (cases "buttonsState gv ! n")
    case None
    with Suc n show ?thesis
      by (simp add: visit_button_def js_get_def cleared_def nth_append take_Suc_conv_app_nth split)
  next
    case (Some a)
    with Suc n show ?thesis
      by (cases a) (simp_all add: visit_button_def buttons_callback_def emit_def js_get_def
          js_set_def cleared_def nth_append take_Suc_conv_app_nth split list_update_append)
  qed
qed

lemma resetStates_eq:
  "resetStates gv =
     gv\<lparr>keysState := cleared (keysState gv),
        buttonsState := cleared (buttonsState gv),
        calls := calls gv @ releasing_calls gv\<rparr>"
  by (simp add: resetStates_def Let_def emit_def fold_visit_key fold_visit_button
      releasing_calls_def active_indices_def)

lemma js_get_cleared: "js_get (cleared arr) i = map_option (\<lambda>_. False) (js_get arr i)"
  by (simp add: js_get_def cleared_def)

lemma distinct_active_indices: "distinct (active_indices arr)"
  by (simp add: active_indices_def)

lemma set_active_indices: "set (active_indices arr) = {i. js_get arr i = Some True}"
  by (auto simp: active_indices_def js_get_def)

lemma length_active_indices: "length (active_indices arr) = card {i. js_get arr i = Some True}"
  using distinct_card [OF distinct_active_indices, of arr] by (simp add: set_active_indices)

subsection \<open>Counting the releasing calls\<close>

lemma count_list_distinct:
  "distinct xs \<Longrightarrow> count_list xs x = (if x \<in> set xs then 1 else 0)"
  by (induction xs) auto

lemma count_active_indices:
  "count_list (active_indices arr) i = (if js_get arr i = Some True then 1 else 0)"
  by (simp add: count_list_distinct distinct_active_indices set_active_indices)

lemma count_map_SetKeyState:
  "count_list (map (\<lambda>k. SetKeyState k False) xs) (SetKeyState k v) =
     (if v then 0 else count_list xs k)"
  by (induction xs) auto

lemma count_map_SetMouseButtonState:
  "count_list (map (\<lambda>b. SetMouseButtonState (int b) False) xs) (SetMouseButtonState b v) =
     (if v \<or> b < 0 then 0 else count_list xs (nat b))"
  by (induction xs) auto

lemma count_map_other:
  "\<forall>x. f x \<noteq> c \<Longrightarrow> count_list (map f xs) c = 0"
  by (induction xs) auto

lemma count_releasing_key:
  "count_list (releasing_calls gv) (SetKeyState k v) =
     (if \<not> v \<and> js_get (keysState gv) k = Some True then 1 else 0)"
  by (simp add: releasing_calls_def count_map_SetKeyState count_active_indices count_map_other)

lemma count_releasing_button:
  "count_list (releasing_calls gv) (SetMouseButtonState b v) =
     (if \<not> v \<and> 0 \<le> b \<and> js_get (buttonsState gv) (nat b) = Some True then 1 else 0)"
  by (simp add: releasing_calls_def count_map_SetMouseButtonState count_active_indices
      count_map_other)

lemma count_releasing_input_char:
  "count_list (releasing_calls gv) (SetInputChar c) = (if c = CharStr NUL then 1 else 0)"
  by (simp add: releasing_calls_def count_map_other)

text \<open>
  C10: after \<open>_resetStates\<close> every entry of \<open>_keysState\<close> and \<open>_buttonsState\<close> is false.
  The bridge calls it makes are appended to the trace: one \<open>setInputChar('\0')\<close>, then
  one \<open>setKeyState(key, false)\<close> for each key whose entry was true, then one
  \<open>setMouseButtonState(button, false)\<close> for each button whose entry was true, \<open>button\<close>
  being the index of the entry; no releasing call is made for an entry that was false or a
  hole, and no other call is made. The window's blur handler is \<open>_resetStates\<close>, and the
  pointer-lock handler runs it when the lock is lost.
\<close>

theorem resetStates_releases_active:
  "keysState (resetStates gv) = cleared (keysState gv)
   \<and> buttonsState (resetStates gv) = cleared (buttonsState gv)
   \<and> (\<forall>i v. js_get (keysState (resetStates gv)) i = Some v \<longrightarrow> v = False)
   \<and> (\<forall>i v. js_get (buttonsState (resetStates gv)) i = Some v \<longrightarrow> v = False)
   \<and> calls (resetStates gv) = calls gv @ releasing_calls gv
   \<and> (\<forall>c. count_list (calls (resetStates gv)) (SetInputChar c) =
             count_list (calls gv) (SetInputChar c) + (if c = CharStr NUL then 1 else 0))
   \<and> (\<forall>k. count_list (calls (resetStates gv)) (SetKeyState k False) =
             count_list (calls gv) (SetKeyState k False)
               + (if js_get (keysState gv) k = Some True then 1 else 0))
   \<and> (\<forall>b. count_list (calls (resetStates gv)) (SetMouseButtonState (int b) False) =
             count_list (calls gv) (SetMouseButtonState (int b) False)
               + (if js_get (buttonsState gv) b = Some True then 1 else 0))
   \<and> length (calls (resetStates gv)) =
        length (calls gv) + 1 + card {k. js_get (keysState gv) k = Some True}
          + card {b. js_get (buttonsState gv) b = Some True}
   \<and> handleWindowBlur gv = resetStates gv
   \<and> (pointerLocked gv \<longrightarrow>
        keysState (handlePointerLockChange False gv) = cleared (keysState gv)
        \<and> buttonsState (handlePointerLockChange False gv) = cleared (buttonsState gv)
        \<and> calls (handlePointerLockChange False gv) =
            calls gv @ [SetRawMouseCapture False, DispatchPointerLockChange False]
              @ releasing_calls gv)"
proof -
  have "\<forall>i v. js_get (cleared (keysState gv)) i = Some v \<longrightarrow> v = False"
    by (auto simp: js_get_cleared)
  moreover have "\<forall>i v. js_get (cleared (buttonsState gv)) i = Some v \<longrightarrow> v = False"
    by (auto simp: js_get_cleared)
  moreover have "length (releasing_calls gv) =
        1 + card {k. js_get (keysState gv) k = Some True}
          + card {b. js_get (buttonsState gv) b = Some True}"
    by (simp add: releasing_calls_def length_active_indices)
  moreover have "pointerLocked gv \<Longrightarrow>
        keysState (handlePointerLockChange False gv) = cleared (keysState gv)
        \<and> buttonsState (handlePointerLockChange False gv) = cleared (buttonsState gv)
        \<and> calls (handlePointerLockChange False gv) =
            calls gv @ [SetRawMouseCapture False, DispatchPointerLockChange False]
              @ releasing_calls gv"
    by (simp add: handlePointerLockChange_def Let_def resetStates_eq emit_def releasing_calls_def)
  ultimately show ?thesis
    by (simp add: resetStates_eq handleWindowBlur_def count_releasing_key
        count_releasing_button count_releasing_input_char)
qed

theorem resetStates_releases_active_witness:
  "pointerLocked example_view
   \<and> keysState (resetStates example_view) = [None, Some False, Some False, None, Some False]
   \<and> buttonsState (resetStates example_view) = [Some False, None, Some False]
   \<and> calls (resetStates example_view) =
       [SetKeyState 1 True, SetInputChar (CharStr NUL), SetKeyState 1 False, SetKeyState 4 False,
        SetMouseButtonState 2 False]
   \<and> calls (handlePointerLockChange False example_view) =
       [SetKeyState 1 True, SetRawMouseCapture False, DispatchPointerLockChange False,
        SetInputChar (CharStr NUL), SetKeyState 1 False, SetKeyState 4 False,
        SetMouseButtonState 2 False]"
proof -
  have locked: "pointerLocked example_view"
    by (simp add: example_view_def)
  have active: "active_indices (keysState example_view) = [1, 4]"
    "active_indices (buttonsState example_view) = [2]"
    by (simp_all add: example_view_def active_indices_def js_get_def upt_rec)
  show ?thesis
    using locked resetStates_releases_active [of example_view]
    by (simp add: releasing_calls_def active cleared_def) (simp add: example_view_def)
qed

section \<open>Properties of the credentials provider\<close>

lemma filter_found_eq:
  "filter_found s a cs found =
     (found \<or> (\<exists>c \<in> set cs. matches s a c), filter (\<lambda>c. \<not> matches s a c) cs)"
  by (induction cs arbitrary: found) (auto simp: matches_def)

lemma deletePassword_eq:
  "deletePassword parse stringify s a p =
     (let kept = filter (\<lambda>c. \<not> matches s a c) (stored parse p);
          found = (\<exists>c \<in> set (stored parse p). matches s a c)
      in (found,
          p\<lparr>priv_credentials := Some kept,
            localStorage_item := (if found then Some (stringify kept) else localStorage_item p)\<rparr>))"
  by (auto simp add: deletePassword_def stored_def credentials_def save_def Let_def filter_found_eq
      split: option.splits prod.splits)

lemma setPassword_eq:
  "setPassword parse stringify s a pw p =
     (let cs = filter (\<lambda>c. \<not> matches s a c) (stored parse p)
               @ [\<lparr>service = s, account = a, password = pw\<rparr>]
      in p\<lparr>priv_credentials := Some cs, localStorage_item := Some (stringify cs)\<rparr>)"
  by (simp add: setPassword_def deletePassword_eq credentials_def save_def Let_def)

lemma stored_update:
  "stored parse (p\<lparr>priv_credentials := Some cs, localStorage_item := x\<rparr>) = cs"
  by (simp add: stored_def credentials_def)

lemma at_most_one_filter: "at_most_one_per_pair cs \<Longrightarrow> at_most_one_per_pair (filter P cs)"
  by (simp add: at_most_one_per_pair_def distinct_map_filter)

lemma at_most_one_append_new:
  "at_most_one_per_pair cs \<Longrightarrow>
   at_most_one_per_pair
     (filter (\<lambda>c. \<not> matches s a c) cs @ [\<lparr>service = s, account = a, password = pw\<rparr>])"
  by (auto simp: at_most_one_per_pair_def distinct_map_filter matches_def)

lemma filter_matches_new:
  "filter (matches s a)
     (filter (\<lambda>c. \<not> matches s a c) cs @ [\<lparr>service = s, account = a, password = pw\<rparr>])
   = [\<lparr>service = s, account = a, password = pw\<rparr>]"
  by (induction cs) (auto simp: matches_def)

lemma matches_new: "matches s a \<lparr>service = s, account = a, password = pw\<rparr>"
  by (simp add: matches_def)

text \<open>
  C8: the provider keeps at most one credential per pair of service and account.
  \<open>setPassword\<close> leaves the credentials of other pairs as they were, drops every
  credential of the pair and appends the new one, which is then the only one of the pair;
  \<open>deletePassword\<close> returns true exactly when a credential of the pair was present,
  drops every credential of the pair and leaves the others as they were. Both keep the
  invariant, which holds for a provider over an empty storage; both write what they
  changed to the storage.
\<close>

theorem credentials_one_per_pair:
  "stored parse (setPassword parse stringify s a pw p) =
     filter (\<lambda>c. \<not> matches s a c) (stored parse p) @ [\<lparr>service = s, account = a, password = pw\<rparr>]
   \<and> filter (matches s a) (stored parse (setPassword parse stringify s a pw p)) =
       [\<lparr>service = s, account = a, password = pw\<rparr>]
   \<and> localStorage_item (setPassword parse stringify s a pw p) =
       Some (stringify (stored parse (setPassword parse stringify s a pw p)))
   \<and> (at_most_one_per_pair (stored parse p) \<longrightarrow>
        at_most_one_per_pair (stored parse (setPassword parse stringify s a pw p)))
   \<and> (fst (deletePassword parse stringify s a p) \<longleftrightarrow> (\<exists>c \<in> set (stored parse p). matches s a c))
   \<and> stored parse (snd (deletePassword parse stringify s a p)) =
       filter (\<lambda>c. \<not> matches s a c) (stored parse p)
   \<and> (\<forall>c \<in> set (stored parse (snd (deletePassword parse stringify s a p))). \<not> matches s a c)
   \<and> (fst (deletePassword parse stringify s a p) \<longrightarrow>
        localStorage_item (snd (deletePassword parse stringify s a p)) =
          Some (stringify (stored parse (snd (deletePassword parse stringify s a p)))))
   \<and> (\<not> fst (deletePassword parse stringify s a p) \<longrightarrow>
        localStorage_item (snd (deletePassword parse stringify s a p)) = localStorage_item p)
   \<and> (at_most_one_per_pair (stored parse p) \<longrightarrow>
        at_most_one_per_pair (stored parse (snd (deletePassword parse stringify s a p))))
   \<and> at_most_one_per_pair (stored parse \<lparr>priv_credentials = None, localStorage_item = None\<rparr>)"
proof -
  have init: "at_most_one_per_pair (stored parse \<lparr>priv_credentials = None, localStorage_item = None\<rparr>)"
    by (simp add: stored_def credentials_def at_most_one_per_pair_def)
  show ?thesis
    by (simp add: setPassword_eq deletePassword_eq Let_def stored_update filter_matches_new
        at_most_one_append_new at_most_one_filter init matches_new)
qed

theorem credentials_one_per_pair_witness:
  "stored example_parse example_provider = example_credentials
   \<and> at_most_one_per_pair (stored example_parse example_provider)
   \<and> stored example_parse
        (setPassword example_parse example_stringify ''github'' ''alice'' ''new'' example_provider) =
       [\<lparr>service = ''github'', account = ''bob'', password = ''pw2''\<rparr>,
        \<lparr>service = ''github'', account = ''alice'', password = ''new''\<rparr>]
   \<and> at_most_one_per_pair (stored example_parse
        (setPassword example_parse example_stringify ''github'' ''alice'' ''new'' example_provider))
   \<and> fst (deletePassword example_parse example_stringify ''github'' ''bob'' example_provider)
   \<and> stored example_parse
        (snd (deletePassword example_parse example_stringify ''github'' ''bob'' example_provider)) =
       [\<lparr>service = ''github'', account = ''alice'', password = ''pw1''\<rparr>]
   \<and> localStorage_item
        (snd (deletePassword example_parse example_stringify ''github'' ''bob'' example_provider)) =
       Some ''github/alice=pw1;''
   \<and> \<not> fst (deletePassword example_parse example_stringify ''gitlab'' ''bob'' example_provider)
   \<and> localStorage_item
        (snd (deletePassword example_parse example_stringify ''gitlab'' ''bob'' example_provider)) =
       Some ''two''"
proof -
  have st: "stored example_parse example_provider = example_credentials"
    by (simp add: stored_def credentials_def example_provider_def example_parse_def)
  have inv: "at_most_one_per_pair (stored example_parse example_provider)"
    by (simp add: st) (simp add: example_credentials_def at_most_one_per_pair_def)
  have ls: "localStorage_item example_provider = Some ''two''"
    by (simp add: example_provider_def)
  have f1: "filter (\<lambda>c. \<not> matches ''github'' ''alice'' c) example_credentials =
      [\<lparr>service = ''github'', account = ''bob'', password = ''pw2''\<rparr>]"
    by (simp add: example_credentials_def matches_def)
  have f2: "filter (\<lambda>c. \<not> matches ''github'' ''bob'' c) example_credentials =
      [\<lparr>service = ''github'', account = ''alice'', password = ''pw1''\<rparr>]"
    by (simp add: example_credentials_def matches_def)
  have e2: "\<exists>c \<in> set example_credentials. matches ''github'' ''bob'' c"
    by (simp add: example_credentials_def matches_def)
  have e3: "\<not> (\<exists>c \<in> set example_credentials. matches ''gitlab'' ''bob'' c)"
    by (simp add: example_credentials_def matches_def)
  have s2: "example_stringify [\<lparr>service = ''github'', account = ''alice'', password = ''pw1''\<rparr>] =
      ''github/alice=pw1;''"
    by (simp add: example_stringify_def)
  note c1 = credentials_one_per_pair [of example_parse example_stringify "''github''" "''alice''"
        "''new''" example_provider]
  note c2 = credentials_one_per_pair [of example_parse example_stringify "''github''" "''bob''"
        "''new''" example_provider]
  note c3 = credentials_one_per_pair [of example_parse example_stringify "''gitlab''" "''bob''"
        "''new''" example_provider]
  have a1: "stored example_parse
        (setPassword example_parse example_stringify ''github'' ''alice'' ''new'' example_provider) =
       [\<lparr>service = ''github'', account = ''bob'', password = ''pw2''\<rparr>,
        \<lparr>service = ''github'', account = ''alice'', password = ''new''\<rparr>]"
    using c1 unfolding st f1 by simp
  have a2: "at_most_one_per_pair (stored example_parse
        (setPassword example_parse example_stringify ''github'' ''alice'' ''new'' example_provider))"
    using c1 inv by blast
  have b1: "fst (deletePassword example_parse example_stringify ''github'' ''bob'' example_provider)"
    using c2 e2 unfolding st by blast
  have b2: "stored example_parse
        (snd (deletePassword example_parse example_stringify ''github'' ''bob'' example_provider)) =
       [\<lparr>service = ''github'', account = ''alice'', password = ''pw1''\<rparr>]"
    using c2 unfolding st f2 by simp
  have b3: "localStorage_item
        (snd (deletePassword example_parse example_stringify ''github'' ''bob'' example_provider)) =
       Some ''github/alice=pw1;''"
    using c2 b1 b2 s2 by simp
  have d1: "\<not> fst (deletePassword example_parse example_stringify ''gitlab'' ''bob'' example_provider)"
    using c3 e3 unfolding st by blast
  have d2: "localStorage_item
        (snd (deletePassword example_parse example_stringify ''gitlab'' ''bob'' example_provider)) =
       Some ''two''"
    using c3 d1 ls by simp
  show ?thesis
    using st inv a1 a2 b1 b2 b3 d1 d2 by simp
qed

section \<open>Properties of the server\<close>

subsection \<open>Files below the application root\<close>

lemma weak_etag_example: \<open>weak_etag example_stats = ''W/"1234-11-1600000000000"''\<close>
  by (simp add: weak_etag_def example_stats_def show_int_def show_nat.simps digit_char_def char_of_eq_iff)

text \<open>
  C1: a path other than \<open>/\<close>, \<open>/manifest.json\<close> and \<open>/vscode-remote-resource\<close> is
  served from \<open>path.join(APP_ROOT, path.normalize(decodeURIComponent(pathname)))\<close>, a
  leading \<open>/static/\<close> being taken off first, and the file served never lies outside the
  application root. The routing holds (\<open>static_route\<close> below), and so does the second
  half for the path names that start with a slash and are not below \<open>/static/\<close>
  (\<open>other_paths_within_root\<close> below).
  The second half fails below \<open>/static/\<close>: what is left of the path name is relative,
  \<open>path.normalize\<close> keeps the leading \<open>..\<close> segments of a relative path, and \<open>path.join\<close>
  resolves them against the root. The request \<open>/static/../../etc/passwd\<close> with the root
  \<open>/opt/fxcode\<close> is answered with the contents of \<open>/etc/passwd\<close>.
\<close>

theorem static_traversal_escapes_root:
  \<open>static_file_path example_env ''/static/../../etc/passwd'' = Some ''/etc/passwd''
   \<and> static_file_path example_env ''/static/%2e%2e/%2E%2E/etc/passwd'' = Some ''/etc/passwd''
   \<and> within_root (APP_ROOT example_env) ''/etc/passwd'' = False
   \<and> handleRequest example_env (get_request ''/static/../../etc/passwd'' []) =
       \<lparr>status = 200,
        out_headers = [(''Content-Type'', ''text/plain''), (''Etag'', ''W/"1234-11-1600000000000"'')],
        body = Piped (Some ''root:x:0:0'')\<rparr>\<close>
  by (simp add: static_file_path_def startsWith_def decodeURIComponent_def path_normalize_def
      normalizeString_def path_join_def within_root_def example_env_def handleRequest_def
      handler_body_def get_request_def example_url_parse_def serveFile_def contentType_def
      hex_digit_def utf8_length_def char_of_eq_iff
      textMimeType_def getMediaMime_def mapExtToMediaMimes_def path_extname_def last_index_of_def
      toLowerCase_def weak_etag_example Let_def)

lemma static_route:
  assumes "url req = Some u" and "u \<noteq> []"
    and "url_parse env u = Some parsedUrl"
    and "pathname parsedUrl = Some p" and "p \<noteq> []"
    and "p \<noteq> ''/vscode-remote-resource''" and "p \<noteq> ''/''" and "p \<noteq> ''/manifest.json''"
    and "decodeURIComponent (if startsWith p ''/static/'' then drop (length ''/static/'') p else p)
           = Some decoded"
  shows "handleRequest env req =
           serveFile env req (path_join [APP_ROOT env, path_normalize decoded])"
  using assms by (simp add: handleRequest_def handler_body_def static_file_path_def Let_def)

subsection \<open>Paths outside \<open>/static/\<close> stay below the root\<close>

text \<open>
  The path name of a request starts with a slash, and so does what
  \<open>decodeURIComponent\<close> makes of it; \<open>path.normalize\<close> drops the \<open>..\<close> segments that
  an absolute path cannot resolve, and \<open>path.join\<close> appends the rest to the root. The root
  is an absolute, normalized path other than \<open>/\<close>.
\<close>

lemma split_on_nonempty: "split_on d s \<noteq> []"
  by (induction s) (auto split: list.splits)

lemma split_on_append: "split_on d (xs @ d # ys) = split_on d xs @ split_on d ys"
proof (induction xs)
  case Nil
  then show ?case using split_on_nonempty [of d ys] by (simp split: list.splits)
next
  case (Cons x xs)
  then show ?case
    using split_on_nonempty [of d xs] by (auto split: list.splits)
qed

lemma split_on_none: "d \<notin> set s \<Longrightarrow> split_on d s = [s]"
  by (induction s) auto

lemma split_on_free: "\<forall>s \<in> set (split_on d xs). d \<notin> set s"
  by (induction xs) (auto split: list.splits)

lemma split_on_join:
  "segs \<noteq> [] \<Longrightarrow> \<forall>s \<in> set segs. d \<notin> set s \<Longrightarrow> split_on d (join_with [d] segs) = segs"
proof (induction segs)
  case Nil
  then show ?case by simp
next
  case (Cons x xs)
  show ?case
  proof (cases xs)
    case Nil
    with Cons.prems show ?thesis by (simp add: split_on_none)
  next
    case (Cons y ys)
    with Cons.IH Cons.prems show ?thesis
      by (simp add: split_on_append split_on_none)
  qed
qed

lemma join_with_append:
  "xs \<noteq> [] \<Longrightarrow> ys \<noteq> [] \<Longrightarrow> join_with sep (xs @ ys) = join_with sep xs @ sep @ join_with sep ys"
proof (induction sep xs rule: join_with.induct)
  case (1 sep)
  then show ?case by simp
next
  case (2 sep x)
  then show ?case by (cases ys) auto
next
  case (3 sep x y ys)
  then show ?case by simp
qed

lemma normalize_segments_append:
  "normalize_segments allow res (xs @ ys) =
     normalize_segments allow (normalize_segments allow res xs) ys"
  by (induction xs arbitrary: res) auto

lemma normalize_segments_plain:
  "\<forall>s \<in> set segs. plain_segment s \<Longrightarrow> normalize_segments allow res segs = res @ segs"
  by (induction segs arbitrary: res) (auto simp: plain_segment_def)

lemma normalize_segments_gives_plain:
  "\<forall>s \<in> set res. plain_segment s \<Longrightarrow> \<forall>s \<in> set segs. CHR ''/'' \<notin> set s \<Longrightarrow>
   \<forall>s \<in> set (normalize_segments False res segs). plain_segment s"
proof (induction segs arbitrary: res)
  case Nil
  then show ?case by simp
next
  case (Cons seg segs)
  have rest: "\<forall>s \<in> set segs. CHR ''/'' \<notin> set s"
    using Cons.prems(2) by simp
  have keep: "\<forall>s \<in> set (normalize_segments False res segs). plain_segment s"
    using Cons.IH [OF Cons.prems(1) rest] .
  have "\<forall>s \<in> set (butlast res). plain_segment s"
    using Cons.prems(1) by (meson in_set_butlastD)
  then have pop: "\<forall>s \<in> set (normalize_segments False (butlast res) segs). plain_segment s"
    using Cons.IH rest by blast
  have push: "\<forall>s \<in> set (normalize_segments False (res @ [seg]) segs). plain_segment s"
    if "seg \<noteq> []" "seg \<noteq> ''.''" "seg \<noteq> ''..''"
  proof -
    have "plain_segment seg"
      using that Cons.prems(2) by (simp add: plain_segment_def)
    then have "\<forall>s \<in> set (res @ [seg]). plain_segment s"
      using Cons.prems(1) by simp
    then show ?thesis using Cons.IH rest by blast
  qed
  show ?case
  proof (cases "seg = [] \<or> seg = ''.''")
    case True
    then show ?thesis using keep by auto
  next
    case False
    show ?thesis
    proof (cases "seg = ''..''")
      case True
      then show ?thesis using keep pop by simp
    next
      case False
      with \<open>\<not> (seg = [] \<or> seg = ''.'')\<close> show ?thesis using push by simp
    qed
  qed
qed

lemma join_with_empty_iff:
  "\<forall>s \<in> set segs. plain_segment s \<Longrightarrow> join_with sep segs = [] \<longleftrightarrow> segs = []"
proof (cases segs)
  case Nil
  then show ?thesis by simp
next
  case (Cons a as)
  assume "\<forall>s \<in> set segs. plain_segment s"
  with Cons have "a \<noteq> []" by (auto simp: plain_segment_def)
  with Cons show ?thesis by (cases as) auto
qed

lemma plain_absolute_segments:
  "\<forall>s \<in> set (normalize_segments False [] (split_on CHR ''/'' p)). plain_segment s"
  using normalize_segments_gives_plain [of "[]" "split_on CHR ''/'' p"]
    split_on_free [of "CHR ''/''" p]
  by simp

lemma path_normalize_absolute:
  assumes "p \<noteq> []" and "hd p = CHR ''/''"
  shows "path_normalize p =
           ''/'' @ join_with ''/'' (normalize_segments False [] (split_on CHR ''/'' p))
             @ (if normalize_segments False [] (split_on CHR ''/'' p) \<noteq> [] \<and> last p = CHR ''/''
                then ''/'' else [])"
  using assms join_with_empty_iff [OF plain_absolute_segments, of "''/''" p]
  by (simp add: path_normalize_def normalizeString_def Let_def)

lemma last_join_with_plain:
  "segs \<noteq> [] \<Longrightarrow> \<forall>s \<in> set segs. plain_segment s \<Longrightarrow> last (join_with ''/'' segs) \<noteq> CHR ''/''"
proof (induction segs)
  case Nil
  then show ?case by simp
next
  case (Cons x xs)
  then have x: "x \<noteq> []" "CHR ''/'' \<notin> set x"
    by (simp_all add: plain_segment_def)
  show ?case
  proof (cases xs)
    case Nil
    have "last x \<in> set x" using x(1) by simp
    then have "last x \<noteq> CHR ''/''" using x(2) by metis
    with Nil show ?thesis by simp
  next
    case (Cons y ys)
    with Cons.IH Cons.prems x have "last (join_with ''/'' xs) \<noteq> CHR ''/''" by simp
    moreover have "join_with ''/'' xs \<noteq> []"
      using Cons Cons.prems join_with_empty_iff [of xs "''/''"] by simp
    ultimately show ?thesis using Cons by simp
  qed
qed

lemma normalize_segments_rooted:
  assumes "\<forall>s \<in> set rs. plain_segment s" and "\<forall>s \<in> set ns. plain_segment s"
  shows "normalize_segments False [] ([] # rs @ [] # ns @ es) =
           normalize_segments False (rs @ ns) es"
proof -
  have "normalize_segments False [] ([] # rs @ [] # ns @ es) =
          normalize_segments False [] (rs @ [] # ns @ es)"
    by simp
  also have "\<dots> = normalize_segments False (normalize_segments False [] rs) ([] # ns @ es)"
    by (rule normalize_segments_append)
  also have "\<dots> = normalize_segments False rs (ns @ es)"
    using assms(1) by (simp add: normalize_segments_plain)
  also have "\<dots> = normalize_segments False (normalize_segments False rs ns) es"
    by (rule normalize_segments_append)
  also have "\<dots> = normalize_segments False (rs @ ns) es"
    using assms(2) by (simp add: normalize_segments_plain)
  finally show ?thesis .
qed

lemma path_normalize_rooted:
  assumes "w \<noteq> []" and "hd w = CHR ''/''"
    and "normalize_segments False [] (split_on CHR ''/'' w) = segs"
    and "segs \<noteq> []" and "\<forall>s \<in> set segs. plain_segment s"
  shows "path_normalize w =
           ''/'' @ join_with ''/'' segs @ (if last w = CHR ''/'' then ''/'' else [])"
  using assms join_with_empty_iff [of segs "''/''"]
  by (simp add: path_normalize_def normalizeString_def Let_def)

lemma path_join_rooted:
  assumes rs: "rs \<noteq> []" "\<forall>s \<in> set rs. plain_segment s"
    and ns: "\<forall>s \<in> set ns. plain_segment s"
    and t: "t = [] \<or> t = ''/''" "ns = [] \<longrightarrow> t = []"
  shows "path_join [''/'' @ join_with ''/'' rs, ''/'' @ join_with ''/'' ns @ t] =
           ''/'' @ join_with ''/'' rs @ ''/'' @ join_with ''/'' ns @ t"
proof -
  have free_rs: "\<forall>s \<in> set rs. CHR ''/'' \<notin> set s" and free_ns: "\<forall>s \<in> set ns. CHR ''/'' \<notin> set s"
    using rs ns by (simp_all add: plain_segment_def)
  define tail where "tail = join_with ''/'' ns @ t"
  define w where "w = ''/'' @ join_with ''/'' rs @ ''/'' @ ''/'' @ tail"
  have joined: "path_join [''/'' @ join_with ''/'' rs, ''/'' @ join_with ''/'' ns @ t] =
      path_normalize w"
    by (simp add: path_join_def w_def tail_def)
  have w: "w \<noteq> []" "hd w = CHR ''/''"
    by (simp_all add: w_def)
  have split_rs: "split_on CHR ''/'' (join_with ''/'' rs) = rs"
    using split_on_join [of rs "CHR ''/''"] rs(1) free_rs by simp
  have split_w: "split_on CHR ''/'' w = [] # rs @ [] # split_on CHR ''/'' tail"
    using split_on_append [of "CHR ''/''" "[]" "join_with ''/'' rs @ ''/'' @ ''/'' @ tail"]
      split_on_append [of "CHR ''/''" "join_with ''/'' rs" "''/'' @ tail"]
      split_on_append [of "CHR ''/''" "[]" tail]
    by (simp add: w_def split_rs)
  have all: "\<forall>s \<in> set (rs @ ns). plain_segment s"
    using rs(2) ns by auto
  have ne: "rs @ ns \<noteq> []"
    using rs(1) by simp
  show ?thesis
  proof (cases "ns = []")
    case True
    then have "t = []" using t by simp
    have tail: "tail = []"
      by (simp add: tail_def True \<open>t = []\<close>)
    have "normalize_segments False [] (split_on CHR ''/'' w) = rs @ ns"
      using normalize_segments_rooted [of rs ns "[[]]"] rs(2) ns
      by (simp add: split_w tail True)
    from path_normalize_rooted [OF w this ne all]
    have "path_normalize w = ''/'' @ join_with ''/'' rs @ ''/''"
      by (simp add: True) (simp add: w_def tail)
    then show ?thesis using joined True \<open>t = []\<close> by simp
  next
    case False
    have split_ns: "split_on CHR ''/'' (join_with ''/'' ns) = ns"
      using split_on_join [of ns "CHR ''/''"] False free_ns by simp
    have jn: "join_with ''/'' ns \<noteq> []"
      using join_with_empty_iff [of ns "''/''"] ns False by simp
    have jrn: "join_with ''/'' (rs @ ns) = join_with ''/'' rs @ ''/'' @ join_with ''/'' ns"
      using join_with_append [of rs ns "''/''"] rs(1) False by simp
    show ?thesis
    proof (cases "t = []")
      case True
      have "normalize_segments False [] (split_on CHR ''/'' w) = rs @ ns"
        using normalize_segments_rooted [of rs ns "[]"] rs(2) ns
        by (simp add: split_w tail_def True split_ns)
      moreover have "last w \<noteq> CHR ''/''"
        using last_join_with_plain [of ns] False ns jn by (simp add: w_def tail_def True)
      ultimately have "path_normalize w = ''/'' @ join_with ''/'' (rs @ ns)"
        using path_normalize_rooted [OF w _ ne all] by simp
      then show ?thesis using joined True jrn by simp
    next
      case nt: False
      then have tt: "t = ''/''" using t by simp
      have "split_on CHR ''/'' tail = ns @ [[]]"
        using split_on_append [of "CHR ''/''" "join_with ''/'' ns" "[]"]
        by (simp add: tail_def tt split_ns)
      then have "normalize_segments False [] (split_on CHR ''/'' w) = rs @ ns"
        using normalize_segments_rooted [of rs ns "[[]]"] rs(2) ns
        by (simp add: split_w)
      moreover have "last w = CHR ''/''"
        by (simp add: w_def tail_def tt)
      ultimately have "path_normalize w = ''/'' @ join_with ''/'' (rs @ ns) @ ''/''"
        using path_normalize_rooted [OF w _ ne all] by simp
      then show ?thesis using joined tt jrn by simp
    qed
  qed
qed

lemma path_normalize_rooted_id:
  assumes segs: "segs \<noteq> []" "\<forall>s \<in> set segs. plain_segment s"
    and t: "t = [] \<or> t = ''/''"
  shows "path_normalize (''/'' @ join_with ''/'' segs @ t) = ''/'' @ join_with ''/'' segs @ t"
proof -
  have free: "\<forall>s \<in> set segs. CHR ''/'' \<notin> set s"
    using segs by (simp add: plain_segment_def)
  define w where "w = ''/'' @ join_with ''/'' segs @ t"
  have w: "w \<noteq> []" "hd w = CHR ''/''"
    by (simp_all add: w_def)
  have split_segs: "split_on CHR ''/'' (join_with ''/'' segs) = segs"
    using split_on_join [of segs "CHR ''/''"] segs(1) free by simp
  have js: "join_with ''/'' segs \<noteq> []"
    using join_with_empty_iff [of segs "''/''"] segs by simp
  have split_w: "split_on CHR ''/'' w = [] # split_on CHR ''/'' (join_with ''/'' segs @ t)"
    using split_on_append [of "CHR ''/''" "[]" "join_with ''/'' segs @ t"]
    by (simp add: w_def)
  have norm: "normalize_segments False [] (split_on CHR ''/'' w) = segs"
  proof (cases "t = []")
    case True
    then show ?thesis
      using segs(2) by (simp add: split_w split_segs normalize_segments_plain)
  next
    case False
    then have "t = ''/''" using t by simp
    then have "split_on CHR ''/'' (join_with ''/'' segs @ t) = segs @ [[]]"
      using split_on_append [of "CHR ''/''" "join_with ''/'' segs" "[]"]
      by (simp add: split_segs)
    then show ?thesis
      using segs(2) normalize_segments_append [of False "[]" segs "[[]]"]
      by (simp add: split_w normalize_segments_plain)
  qed
  have "last w = CHR ''/'' \<longleftrightarrow> t = ''/''"
    using t last_join_with_plain [OF segs] js by (auto simp: w_def)
  with path_normalize_rooted [OF w norm segs] t show ?thesis
    by (auto simp: w_def)
qed

lemma uri_tokens_literal:
  "c \<noteq> CHR ''%'' \<Longrightarrow> uri_tokens (c # cs) = map_option ((#) (Lit c)) (uri_tokens cs)"
  by (cases "(c # cs)" rule: uri_tokens.cases) auto

lemma decodeURIComponent_head:
  assumes "decodeURIComponent (c # cs) = Some d" and "c \<noteq> CHR ''%''"
  shows "d \<noteq> [] \<and> hd d = c"
  using assms
  by (auto simp add: decodeURIComponent_def uri_tokens_literal split: option.splits)

lemma startsWith_append: "startsWith (xs @ ys) xs"
  by (simp add: startsWith_def)

lemma other_paths_within_root:
  assumes root: "APP_ROOT env = ''/'' @ join_with ''/'' rs" "rs \<noteq> []"
      "\<forall>s \<in> set rs. plain_segment s"
    and p: "p \<noteq> []" "hd p = CHR ''/''" "\<not> startsWith p ''/static/''"
    and served: "static_file_path env p = Some filePath"
  shows "within_root (APP_ROOT env) filePath"
    and "path_normalize filePath = filePath"
proof -
  from p(1,2) obtain cs where pc: "p = CHR ''/'' # cs"
    by (cases p) auto
  from served p(3) obtain decoded where dec: "decodeURIComponent p = Some decoded"
    and fp: "filePath = path_join [APP_ROOT env, path_normalize decoded]"
    by (auto simp add: static_file_path_def Let_def split: option.splits)
  have d: "decoded \<noteq> []" "hd decoded = CHR ''/''"
    using decodeURIComponent_head [of "CHR ''/''" cs decoded] dec pc by simp_all
  define ns where "ns = normalize_segments False [] (split_on CHR ''/'' decoded)"
  define t where "t = (if ns \<noteq> [] \<and> last decoded = CHR ''/'' then ''/'' else [])"
  have plain: "\<forall>s \<in> set ns. plain_segment s"
    unfolding ns_def by (rule plain_absolute_segments)
  have t: "t = [] \<or> t = ''/''" "ns = [] \<longrightarrow> t = []"
    by (simp_all add: t_def)
  have "path_normalize decoded = ''/'' @ join_with ''/'' ns @ t"
    using path_normalize_absolute [OF d] by (simp add: ns_def t_def)
  with fp have eq: "filePath = ''/'' @ join_with ''/'' rs @ ''/'' @ join_with ''/'' ns @ t"
    using path_join_rooted [OF root(2,3) plain t] by (simp add: root(1))
  then have "filePath = (APP_ROOT env @ ''/'') @ join_with ''/'' ns @ t"
    by (simp add: root(1))
  then show "within_root (APP_ROOT env) filePath"
    using startsWith_append [of "APP_ROOT env @ ''/''" "join_with ''/'' ns @ t"]
    by (simp add: within_root_def)
  show "path_normalize filePath = filePath"
  proof (cases "ns = []")
    case True
    with t eq have "filePath = ''/'' @ join_with ''/'' rs @ ''/''" by simp
    then show ?thesis
      using path_normalize_rooted_id [OF root(2,3), of "''/''"] by simp
  next
    case False
    have all: "rs @ ns \<noteq> []" "\<forall>s \<in> set (rs @ ns). plain_segment s"
      using root(2,3) plain by auto
    have "join_with ''/'' (rs @ ns) = join_with ''/'' rs @ ''/'' @ join_with ''/'' ns"
      using join_with_append [of rs ns "''/''"] root(2) False by simp
    with eq have "filePath = ''/'' @ join_with ''/'' (rs @ ns) @ t" by simp
    then show ?thesis
      using path_normalize_rooted_id [OF all t(1)] by simp
  qed
qed


subsection \<open>Conditional requests\<close>

text \<open>
  C2: for a file that exists, with the weak validator \<open>W/"ino-size-mtime"\<close> computed from
  its \<open>stat\<close>: a request whose \<open>If-None-Match\<close> header is that validator is answered
  with 304 and an empty body; a request with any other \<open>If-None-Match\<close> header, or with
  none, is answered with 200, the contents of the file and the validator in the \<open>Etag\<close>
  header.
\<close>

theorem serveFile_conditional_get:
  assumes "fs_stat env (path_normalize filePath) = Some stat"
  shows \<open>weak_etag stat =
           ''W/"'' @ show_nat (stat_ino stat) @ ''-'' @ show_nat (stat_size stat) @ ''-''
             @ show_int (stat_mtime stat) @ ''"''
         \<and> (headers req ''if-none-match'' = Some (weak_etag stat) \<longrightarrow>
              serveFile env req filePath = \<lparr>status = 304, out_headers = [], body = Ended []\<rparr>)
         \<and> (headers req ''if-none-match'' \<noteq> Some (weak_etag stat) \<longrightarrow>
              status (serveFile env req filePath) = 200
              \<and> body (serveFile env req filePath) = Piped (fs_read env (path_normalize filePath))
              \<and> map_of (out_headers (serveFile env req filePath)) ''Etag'' = Some (weak_etag stat))\<close>
  using assms by (simp add: serveFile_def weak_etag_def Let_def)

theorem serveFile_conditional_get_witness:
  \<open>fs_stat example_env (path_normalize ''/opt/fxcode/out/./main.js'') = Some example_stats
   \<and> weak_etag example_stats = ''W/"1234-11-1600000000000"''
   \<and> serveFile example_env
        (get_request ''/out/main.js'' [(''if-none-match'', ''W/"1234-11-1600000000000"'')])
        ''/opt/fxcode/out/./main.js''
      = \<lparr>status = 304, out_headers = [], body = Ended []\<rparr>
   \<and> status (serveFile example_env (get_request ''/out/main.js'' []) ''/opt/fxcode/out/./main.js'') = 200
   \<and> body (serveFile example_env (get_request ''/out/main.js'' []) ''/opt/fxcode/out/./main.js'')
      = Piped (Some ''let x = 1;'')
   \<and> map_of (out_headers (serveFile example_env (get_request ''/out/main.js'' [])
        ''/opt/fxcode/out/./main.js'')) ''Etag'' = Some ''W/"1234-11-1600000000000"''\<close>
proof -
  have n: "path_normalize ''/opt/fxcode/out/./main.js'' = ''/opt/fxcode/out/main.js''"
    by (simp add: path_normalize_def normalizeString_def)
  have st: "fs_stat example_env (path_normalize ''/opt/fxcode/out/./main.js'') = Some example_stats"
    by (simp add: n) (simp add: example_env_def)
  have rd: "fs_read example_env ''/opt/fxcode/out/main.js'' = Some ''let x = 1;''"
    by (simp add: example_env_def)
  have h1: \<open>headers (get_request ''/out/main.js'' [(''if-none-match'', ''W/"1234-11-1600000000000"'')])
             ''if-none-match'' = Some ''W/"1234-11-1600000000000"''\<close>
    by (simp add: get_request_def)
  have h2: \<open>headers (get_request ''/out/main.js'' []) ''if-none-match'' = None\<close>
    by (simp add: get_request_def)
  show ?thesis
    using st
      serveFile_conditional_get [OF st,
        of \<open>get_request ''/out/main.js'' [(''if-none-match'', ''W/"1234-11-1600000000000"'')]\<close>]
      serveFile_conditional_get [OF st, of \<open>get_request ''/out/main.js'' []\<close>]
    by (simp add: weak_etag_example h1 h2 n rd)
qed

subsection \<open>The WebSocket upgrade\<close>

text \<open>
  C3, as the code has it: an upgrade request is answered with
  \<open>HTTP/1.1 400 Bad Request\<close> exactly when its \<open>Upgrade\<close> header is not
  \<open>websocket\<close>, or its \<open>reconnectionToken\<close> parameter is absent, not a single string, or
  the empty string (a request without a URL has no parameter, and is rejected); in every
  other case the handshake is written and the socket handed on. The URL is one that
  \<open>url.parse\<close> accepts.
\<close>

theorem upgrade_rejected_iff:
  "((url req = None \<or> url req = Some []) \<longrightarrow>
       handleUpgrade env req = SocketEnd ''HTTP/1.1 400 Bad Request'')
   \<and> (url req = Some u \<and> u \<noteq> [] \<and> url_parse env u = Some parsedUrl \<longrightarrow>
        (handleUpgrade env req = SocketEnd ''HTTP/1.1 400 Bad Request''
           \<longleftrightarrow> headers req ''upgrade'' \<noteq> Some ''websocket'' \<or> token_missing parsedUrl)
        \<and> (\<not> (headers req ''upgrade'' \<noteq> Some ''websocket'' \<or> token_missing parsedUrl) \<longrightarrow>
             (\<exists>written permessageDeflate.
                handleUpgrade env req = Upgraded written permessageDeflate)))"
  by (auto simp add: handleUpgrade_def token_missing_def Let_def
      split: option.splits query_value.splits)

theorem upgrade_rejected_iff_witness:
  "url (upgrade_request ''/?reconnectionToken=c0e3a8af&reconnection=false'' []) =
      Some ''/?reconnectionToken=c0e3a8af&reconnection=false''
   \<and> \<not> token_missing (the (url_parse example_env ''/?reconnectionToken=c0e3a8af&reconnection=false''))
   \<and> handleUpgrade example_env (upgrade_request ''/?reconnectionToken=c0e3a8af&reconnection=false'' [])
       \<noteq> SocketEnd ''HTTP/1.1 400 Bad Request''
   \<and> token_missing (the (url_parse example_env ''/?reconnectionToken=''))
   \<and> handleUpgrade example_env (upgrade_request ''/?reconnectionToken='' []) =
        SocketEnd ''HTTP/1.1 400 Bad Request''
   \<and> handleUpgrade example_env \<lparr>url = None, headers = map_of [(''upgrade'', ''websocket'')], upgrade = True\<rparr> =
        SocketEnd ''HTTP/1.1 400 Bad Request''"
proof -
  have p1: "url_parse example_env ''/?reconnectionToken=c0e3a8af&reconnection=false'' =
      Some \<lparr>pathname = Some ''/'',
            query = map_of [(''reconnectionToken'', QString ''c0e3a8af''),
                            (''reconnection'', QString ''false'')]\<rparr>"
    by (simp add: example_env_def example_url_parse_def)
  have p2: "url_parse example_env ''/?reconnectionToken='' =
      Some \<lparr>pathname = Some ''/'', query = map_of [(''reconnectionToken'', QString [])]\<rparr>"
    by (simp add: example_env_def example_url_parse_def empty_token_url_def)
  have t1: "\<not> token_missing \<lparr>pathname = Some ''/'',
            query = map_of [(''reconnectionToken'', QString ''c0e3a8af''),
                            (''reconnection'', QString ''false'')]\<rparr>"
    by (simp add: token_missing_def)
  have t2: "token_missing \<lparr>pathname = Some ''/'', query = map_of [(''reconnectionToken'', QString [])]\<rparr>"
    by (simp add: token_missing_def)
  show ?thesis
    using p1 p2 t1 t2
      upgrade_rejected_iff [where env = example_env
        and req = "upgrade_request ''/?reconnectionToken=c0e3a8af&reconnection=false'' []"
        and u = "''/?reconnectionToken=c0e3a8af&reconnection=false''"
        and parsedUrl = "\<lparr>pathname = Some ''/'',
            query = map_of [(''reconnectionToken'', QString ''c0e3a8af''),
                            (''reconnection'', QString ''false'')]\<rparr>"]
      upgrade_rejected_iff [where env = example_env
        and req = "upgrade_request ''/?reconnectionToken='' []"
        and u = "''/?reconnectionToken=''"
        and parsedUrl = "\<lparr>pathname = Some ''/'', query = map_of [(''reconnectionToken'', QString [])]\<rparr>"]
      upgrade_rejected_iff [where env = example_env
        and req = "\<lparr>url = None, headers = map_of [(''upgrade'', ''websocket'')], upgrade = True\<rparr>"]
    by (simp add: upgrade_request_def)
qed

text \<open>
  C3 as it was stated fails: the request \<open>/?reconnectionToken=\<close> has the header
  \<open>Upgrade: websocket\<close> and a \<open>reconnectionToken\<close> that is a single string, and is
  rejected, the string being empty.
\<close>

theorem upgrade_empty_token_counterexample:
  "headers (upgrade_request ''/?reconnectionToken='' []) ''upgrade'' = Some ''websocket''
   \<and> url (upgrade_request ''/?reconnectionToken='' []) = Some ''/?reconnectionToken=''
   \<and> url_parse example_env ''/?reconnectionToken='' = Some empty_token_url
   \<and> query empty_token_url ''reconnectionToken'' = Some (QString [])
   \<and> handleUpgrade example_env (upgrade_request ''/?reconnectionToken='' []) =
        SocketEnd ''HTTP/1.1 400 Bad Request''"
  by (simp add: upgrade_request_def example_env_def example_url_parse_def handleUpgrade_def
      empty_token_url_def)

text \<open>
  C4: the handshake written for an accepted upgrade starts with the status line
  \<open>HTTP/1.1 101 Web Socket Protocol Handshake\<close>, and its \<open>Sec-WebSocket-Accept\<close> header
  is the base64 form of the SHA-1 hash of the request's \<open>Sec-WebSocket-Key\<close> followed by
  \<open>258EAFA5-E914-47DA-95CA-C5AB0DC85B11\<close>. (For a request without the header the key
  reads as the text \<open>undefined\<close>.)
\<close>

theorem upgrade_handshake:
  assumes "handleUpgrade env req = Upgraded written permessageDeflate"
  shows "written =
      ''HTTP/1.1 101 Web Socket Protocol Handshake'' @ CRLF
      @ ''Upgrade: WebSocket'' @ CRLF
      @ ''Connection: Upgrade'' @ CRLF
      @ ''Sec-WebSocket-Accept: ''
      @ sha1_base64 env
          ((case headers req ''sec-websocket-key'' of None \<Rightarrow> ''undefined'' | Some k \<Rightarrow> k)
           @ ''258EAFA5-E914-47DA-95CA-C5AB0DC85B11'')
      @ (if permessageDeflate
         then CRLF @ ''Sec-WebSocket-Extensions: permessage-deflate; server_max_window_bits=15''
         else [])
      @ CRLF @ CRLF"
  using assms
  by (auto simp add: handleUpgrade_def header_or_undefined_def Let_def
      split: option.splits if_splits)

theorem upgrade_handshake_witness:
  "handleUpgrade example_env
     (upgrade_request ''/?reconnectionToken=c0e3a8af&reconnection=false''
        [(''sec-websocket-key'', ''dGhlIHNhbXBsZSBub25jZQ=='')])
   = Upgraded
      (''HTTP/1.1 101 Web Socket Protocol Handshake'' @ CRLF
       @ ''Upgrade: WebSocket'' @ CRLF
       @ ''Connection: Upgrade'' @ CRLF
       @ ''Sec-WebSocket-Accept: s3pPLMBiTxaQ9kYGzzhZRbK+xOo='' @ CRLF @ CRLF) False
   \<and> headers (upgrade_request ''/?reconnectionToken=c0e3a8af&reconnection=false''
        [(''sec-websocket-key'', ''dGhlIHNhbXBsZSBub25jZQ=='')]) ''sec-websocket-key''
      = Some ''dGhlIHNhbXBsZSBub25jZQ==''"
proof -
  let ?req = "upgrade_request ''/?reconnectionToken=c0e3a8af&reconnection=false''
        [(''sec-websocket-key'', ''dGhlIHNhbXBsZSBub25jZQ=='')]"
  have k: "headers ?req ''sec-websocket-key'' = Some ''dGhlIHNhbXBsZSBub25jZQ==''"
    by (simp add: upgrade_request_def)
  obtain written where w: "handleUpgrade example_env ?req = Upgraded written False"
    by (simp add: handleUpgrade_def upgrade_request_def example_env_def example_url_parse_def
        header_or_undefined_def startsWith_def Let_def)
  have h: "sha1_base64 example_env
             (''dGhlIHNhbXBsZSBub25jZQ=='' @ ''258EAFA5-E914-47DA-95CA-C5AB0DC85B11'')
           = ''s3pPLMBiTxaQ9kYGzzhZRbK+xOo=''"
    by (simp add: example_env_def)
  show ?thesis
    using upgrade_handshake [OF w] w k h by simp
qed

subsection \<open>Error responses\<close>

text \<open>
  C5: a file that does not exist (\<open>stat\<close> fails in \<open>serveFile\<close>) is answered with 404,
  \<open>Content-Type: text/plain\<close> and the body \<open>Not found\<close>; a request for
  \<open>/vscode-remote-resource\<close> whose \<open>path\<close> parameter is absent or not a single string
  with 400 and \<open>Bad Request.\<close>; and a request during which the handler throws with 500
  and \<open>Internal Server Error.\<close>. The handler throws when \<open>url.parse\<close>, \<open>URI.from\<close> or
  \<open>decodeURIComponent\<close> does.
\<close>

theorem error_responses:
  "(fs_stat env (path_normalize filePath) = None \<longrightarrow>
      serveFile env req filePath =
        \<lparr>status = 404, out_headers = [(''Content-Type'', ''text/plain'')], body = Ended ''Not found''\<rparr>)
   \<and> (url req = Some u \<and> u \<noteq> [] \<and> url_parse env u = Some parsedUrl
        \<and> pathname parsedUrl = Some ''/vscode-remote-resource''
        \<and> (\<forall>filePath. query parsedUrl ''path'' \<noteq> Some (QString filePath)) \<longrightarrow>
      handleRequest env req =
        \<lparr>status = 400, out_headers = [(''Content-Type'', ''text/plain'')], body = Ended ''Bad Request.''\<rparr>)
   \<and> (url req = Some u \<and> u \<noteq> [] \<and> handler_body env req u = None \<longrightarrow>
      handleRequest env req =
        \<lparr>status = 500, out_headers = [(''Content-Type'', ''text/plain'')],
         body = Ended ''Internal Server Error.''\<rparr>)
   \<and> (url_parse env u = None \<longrightarrow> handler_body env req u = None)
   \<and> (url_parse env u = Some parsedUrl \<and> pathname parsedUrl = Some ''/vscode-remote-resource''
        \<and> query parsedUrl ''path'' = Some (QString filePath) \<and> uri_file_fsPath env filePath = None \<longrightarrow>
      handler_body env req u = None)
   \<and> (url_parse env u = Some parsedUrl \<and> pathname parsedUrl = Some p \<and> p \<noteq> []
        \<and> p \<noteq> ''/vscode-remote-resource'' \<and> p \<noteq> ''/'' \<and> p \<noteq> ''/manifest.json''
        \<and> decodeURIComponent (if startsWith p ''/static/'' then drop (length ''/static/'') p else p) = None \<longrightarrow>
      handler_body env req u = None)"
proof -
  have a: "(\<forall>filePath. query parsedUrl ''path'' \<noteq> Some (QString filePath)) \<Longrightarrow>
      (case query parsedUrl ''path'' of
         Some (QString filePath) \<Rightarrow>
           (case uri_file_fsPath env filePath of
              None \<Rightarrow> None
            | Some fsPath \<Rightarrow>
                if fsPath = [] then Some (serveError 400 ''Bad Request.'')
                else Some (serveFile env req fsPath))
       | _ \<Rightarrow> Some (serveError 400 ''Bad Request.'')) = Some (serveError 400 ''Bad Request.'')"
    by (simp split: option.splits query_value.splits)
  show ?thesis
    by (auto simp add: serveFile_def handleRequest_def handler_body_def a serveError_def
        static_file_path_def Let_def)
qed


theorem error_responses_witness:
  "fs_stat example_env (path_normalize ''/opt/fxcode/missing.txt'') = None
   \<and> serveFile example_env (get_request ''/missing.txt'' []) ''/opt/fxcode/missing.txt'' =
        \<lparr>status = 404, out_headers = [(''Content-Type'', ''text/plain'')], body = Ended ''Not found''\<rparr>
   \<and> query \<lparr>pathname = Some ''/vscode-remote-resource'',
             query = map_of [(''path'', QArray [''a'', ''b''])]\<rparr> ''path'' = Some (QArray [''a'', ''b''])
   \<and> handleRequest example_env (get_request ''/vscode-remote-resource?path=a&path=b'' []) =
        \<lparr>status = 400, out_headers = [(''Content-Type'', ''text/plain'')], body = Ended ''Bad Request.''\<rparr>
   \<and> decodeURIComponent ''/%'' = None
   \<and> handleRequest example_env (get_request ''/%'' []) =
        \<lparr>status = 500, out_headers = [(''Content-Type'', ''text/plain'')],
         body = Ended ''Internal Server Error.''\<rparr>"
proof -
  have n: "path_normalize ''/opt/fxcode/missing.txt'' = ''/opt/fxcode/missing.txt''"
    by (simp add: path_normalize_def normalizeString_def)
  have st: "fs_stat example_env (path_normalize ''/opt/fxcode/missing.txt'') = None"
    by (simp add: n) (simp add: example_env_def)
  have p1: "url_parse example_env ''/vscode-remote-resource?path=a&path=b'' =
      Some \<lparr>pathname = Some ''/vscode-remote-resource'', query = map_of [(''path'', QArray [''a'', ''b''])]\<rparr>"
    by (simp add: example_env_def example_url_parse_def)
  have p2: "url_parse example_env ''/%'' = Some \<lparr>pathname = Some ''/%'', query = Map.empty\<rparr>"
    by (simp add: example_env_def example_url_parse_def)
  have d: "decodeURIComponent ''/%'' = None"
    by (simp add: decodeURIComponent_def)
  have sw: "\<not> startsWith ''/%'' ''/static/''"
    by (simp add: startsWith_def)
  have e1: "serveFile example_env (get_request ''/missing.txt'' []) ''/opt/fxcode/missing.txt'' =
        \<lparr>status = 404, out_headers = [(''Content-Type'', ''text/plain'')], body = Ended ''Not found''\<rparr>"
    using st error_responses [where env = example_env and filePath = "''/opt/fxcode/missing.txt''"
        and req = "get_request ''/missing.txt'' []"] by simp
  have e2: "handleRequest example_env (get_request ''/vscode-remote-resource?path=a&path=b'' []) =
        \<lparr>status = 400, out_headers = [(''Content-Type'', ''text/plain'')], body = Ended ''Bad Request.''\<rparr>"
    using p1 error_responses [where env = example_env
        and req = "get_request ''/vscode-remote-resource?path=a&path=b'' []"
        and u = "''/vscode-remote-resource?path=a&path=b''"
        and parsedUrl = "\<lparr>pathname = Some ''/vscode-remote-resource'',
                           query = map_of [(''path'', QArray [''a'', ''b''])]\<rparr>"]
    by (simp add: get_request_def)
  have b: "handler_body example_env (get_request ''/%'' []) ''/%'' = None"
    using p2 d sw error_responses [where env = example_env and req = "get_request ''/%'' []" and u = "''/%''"
        and parsedUrl = "\<lparr>pathname = Some ''/%'', query = Map.empty\<rparr>" and p = "''/%''"]
    by simp
  have e3: "handleRequest example_env (get_request ''/%'' []) =
        \<lparr>status = 500, out_headers = [(''Content-Type'', ''text/plain'')],
         body = Ended ''Internal Server Error.''\<rparr>"
    using b error_responses [where env = example_env and req = "get_request ''/%'' []" and u = "''/%''"]
    by (simp add: get_request_def)
  show ?thesis
    using st e1 e2 e3 d by simp
qed


subsection \<open>The manifest\<close>




end
